theory Spec2Isabelle
  imports Main "HOL-Library.Word" "HOL-Library.Signed_Division"
begin

unbundle bit_operations_syntax

section \<open>Machine integers and constants of the driver\<close>

type_synonym u8 = "8 word"
type_synonym u16 = "16 word"
type_synonym u32 = "32 word"
type_synonym i32 = "32 word"
type_synonym i64 = "64 word"

text \<open>
  The signed types \<open>int32_t\<close> and \<open>int64_t\<close> are words read through \<^const>\<open>sint\<close>;
  addition, subtraction and multiplication wrap around, right shifts of signed values are
  arithmetic (\<^const>\<open>signed_drop_bit\<close>), comparisons of signed values are \<open><s\<close>.
\<close>

datatype ms5805_resolution_osr =
    ms5805_resolution_osr_256
  | ms5805_resolution_osr_512
  | ms5805_resolution_osr_1024
  | ms5805_resolution_osr_2048
  | ms5805_resolution_osr_4096
  | ms5805_resolution_osr_8192

text \<open>
  The numeric value of an enumerator (\<open>ms5805_resolution_osr_256 = 0\<close>, then
  counting up).
\<close>

fun osr_value :: "ms5805_resolution_osr \<Rightarrow> u8" where
  "osr_value ms5805_resolution_osr_256 = 0"
| "osr_value ms5805_resolution_osr_512 = 1"
| "osr_value ms5805_resolution_osr_1024 = 2"
| "osr_value ms5805_resolution_osr_2048 = 3"
| "osr_value ms5805_resolution_osr_4096 = 4"
| "osr_value ms5805_resolution_osr_8192 = 5"

datatype ms5805_status =
    ms5805_status_ok
  | ms5805_status_no_i2c_acknowledge
  | ms5805_status_i2c_transfer_error
  | ms5805_status_crc_error

text \<open>
  \<open>enum ms5805_status_code\<close>: the values \<open>Wire.endTransmission()\<close> is
  compared with.
\<close>

definition ms5805_STATUS_OK :: u8 where
  "ms5805_STATUS_OK = 0"

definition ms5805_STATUS_ERR_OVERFLOW :: u8 where
  "ms5805_STATUS_ERR_OVERFLOW = 1"

definition ms5805_STATUS_ERR_TIMEOUT :: u8 where
  "ms5805_STATUS_ERR_TIMEOUT = 4"

definition MS5805_COEFFICIENT_COUNT :: nat where
  "MS5805_COEFFICIENT_COUNT = 7"

definition MS5805_RESET_COMMAND :: u8 where
  "MS5805_RESET_COMMAND = 0x1E"

definition MS5805_START_PRESSURE_ADC_CONVERSION :: u8 where
  "MS5805_START_PRESSURE_ADC_CONVERSION = 0x40"

definition MS5805_START_TEMPERATURE_ADC_CONVERSION :: u8 where
  "MS5805_START_TEMPERATURE_ADC_CONVERSION = 0x50"

definition MS5805_READ_ADC :: u8 where
  "MS5805_READ_ADC = 0x00"

definition MS5805_CONVERSION_OSR_MASK :: u8 where
  "MS5805_CONVERSION_OSR_MASK = 0x0F"

definition MS5805_PROM_ADDRESS_READ_ADDRESS_0 :: u8 where
  "MS5805_PROM_ADDRESS_READ_ADDRESS_0 = 0xA0"

definition MS5805_CRC_INDEX :: nat where
  "MS5805_CRC_INDEX = 0"

definition MS5805_PRESSURE_SENSITIVITY_INDEX :: nat where
  "MS5805_PRESSURE_SENSITIVITY_INDEX = 1"

definition MS5805_PRESSURE_OFFSET_INDEX :: nat where
  "MS5805_PRESSURE_OFFSET_INDEX = 2"

definition MS5805_TEMP_COEFF_OF_PRESSURE_SENSITIVITY_INDEX :: nat where
  "MS5805_TEMP_COEFF_OF_PRESSURE_SENSITIVITY_INDEX = 3"

definition MS5805_TEMP_COEFF_OF_PRESSURE_OFFSET_INDEX :: nat where
  "MS5805_TEMP_COEFF_OF_PRESSURE_OFFSET_INDEX = 4"

definition MS5805_REFERENCE_TEMPERATURE_INDEX :: nat where
  "MS5805_REFERENCE_TEMPERATURE_INDEX = 5"

definition MS5805_TEMP_COEFF_OF_TEMPERATURE_INDEX :: nat where
  "MS5805_TEMP_COEFF_OF_TEMPERATURE_INDEX = 6"

section \<open>The CRC check\<close>

text \<open>
  \<open>crc_check\<close> works in place on the array \<open>n_prom\<close> (the member \<open>eeprom_coeff\<close>, of
  \<open>MS5805_COEFFICIENT_COUNT + 1 = 8\<close> words). The model takes the array as a list and
  returns the array as the call leaves it, next to the boolean result.
\<close>

text \<open>One pass of the inner loop body: \<open>if (n_rem & 0x8000) n_rem = (n_rem << 1) ^ 0x3000;
  else n_rem <<= 1;\<close>\<close>

definition crc_shift :: "u16 \<Rightarrow> u16" where
  "crc_shift n_rem =
     (if n_rem AND 0x8000 \<noteq> 0 then push_bit 1 n_rem XOR 0x3000 else push_bit 1 n_rem)"

text \<open>
  The inner loop \<open>for (n_bit = 8; n_bit > 0; n_bit--)\<close>, by its counter.
\<close>

fun crc_bits :: "nat \<Rightarrow> u16 \<Rightarrow> u16" where
  "crc_bits 0 n_rem = n_rem"
| "crc_bits (Suc n_bit) n_rem = crc_bits n_bit (crc_shift n_rem)"

text \<open>The "get next byte" step of the outer loop body.\<close>

definition crc_next_byte :: "u16 list \<Rightarrow> nat \<Rightarrow> u16 \<Rightarrow> u16" where
  "crc_next_byte n_prom cnt n_rem =
     (if cnt mod 2 = 1 then n_rem XOR (n_prom ! (cnt div 2) AND 0x00FF)
      else n_rem XOR drop_bit 8 (n_prom ! (cnt div 2)))"

text \<open>The outer loop \<open>for (cnt = 0; cnt < (MS5805_COEFFICIENT_COUNT + 1) * 2; cnt++)\<close>,
  from the counter value \<open>cnt\<close> on.\<close>

function crc_loop :: "u16 list \<Rightarrow> nat \<Rightarrow> u16 \<Rightarrow> u16" where
  "crc_loop n_prom cnt n_rem =
     (if cnt < (MS5805_COEFFICIENT_COUNT + 1) * 2
      then crc_loop n_prom (Suc cnt) (crc_bits 8 (crc_next_byte n_prom cnt n_rem))
      else n_rem)"
  by pat_completeness auto
termination
  by (relation "measure (\<lambda>(n_prom, cnt, n_rem). (MS5805_COEFFICIENT_COUNT + 1) * 2 - cnt)") auto

definition crc_check :: "u16 list \<Rightarrow> u8 \<Rightarrow> bool \<times> u16 list" where
  "crc_check n_prom crc =
     (let crc_read = n_prom ! 0;
          n_prom1 = n_prom[MS5805_COEFFICIENT_COUNT := 0];
          n_prom2 = n_prom1[0 := 0x0FFF AND n_prom1 ! 0];
          n_rem = crc_loop n_prom2 0 0x00;
          n_rem' = drop_bit 12 n_rem;
          n_prom3 = n_prom2[0 := crc_read]
      in (n_rem' = ucast crc, n_prom3))"

section \<open>The I2C bus and the delay\<close>

text \<open>
  The Arduino \<open>Wire\<close> object and \<open>delay\<close> are not part of the driver. The bus is a
  record: \<open>end_status\<close> is what \<open>Wire.endTransmission()\<close> returns and \<open>rx_bytes\<close> the bytes
  the device delivers to \<open>Wire.requestFrom\<close>, both as functions of everything done on the
  bus so far (the operation in progress included); \<open>trace\<close> is that history and
  \<open>rx_buffer\<close> the receive buffer \<open>Wire.read()\<close> takes its bytes from.
\<close>

datatype bus_op = Transmit u8 | RequestFrom nat | Delay nat

record wire =
  end_status :: "bus_op list \<Rightarrow> u8"
  rx_bytes :: "bus_op list \<Rightarrow> u8 list"
  trace :: "bus_op list"
  rx_buffer :: "u8 list"

text \<open>
  \<open>Wire.beginTransmission(MS5805_ADDR); Wire.write(cmd); Wire.endTransmission()\<close>
\<close>

definition Wire_transmit :: "u8 \<Rightarrow> wire \<Rightarrow> u8 \<times> wire" where
  "Wire_transmit cmd w =
     (let t = trace w @ [Transmit cmd] in (end_status w t, w\<lparr>trace := t\<rparr>))"

text \<open>
  \<open>Wire.requestFrom(MS5805_ADDR, n)\<close>: at most \<open>n\<close> bytes arrive in
  the buffer.
\<close>

definition Wire_requestFrom :: "nat \<Rightarrow> wire \<Rightarrow> wire" where
  "Wire_requestFrom n w =
     (let t = trace w @ [RequestFrom n] in w\<lparr>trace := t, rx_buffer := take n (rx_bytes w t)\<rparr>)"

text \<open>\<open>Wire.read()\<close> stored in a \<open>uint8_t\<close>: the next byte, or \<open>-1\<close> (that is \<open>0xFF\<close>) when
  the buffer is empty.\<close>

definition Wire_read :: "wire \<Rightarrow> u8 \<times> wire" where
  "Wire_read w =
     (case rx_buffer w of [] \<Rightarrow> (0xFF, w) | b # bs \<Rightarrow> (b, w\<lparr>rx_buffer := bs\<rparr>))"

definition delay :: "nat \<Rightarrow> wire \<Rightarrow> wire" where
  "delay ms w = w\<lparr>trace := trace w @ [Delay ms]\<rparr>"

section \<open>The driver object\<close>

record ms5805 =
  eeprom_coeff :: "u16 list"
  coeff_read :: bool
  ms5805_resolution_osr :: ms5805_resolution_osr

text \<open>The member \<open>conversion_time[6]\<close>, in milliseconds.\<close>

definition conversion_time :: "nat list" where
  "conversion_time = [1, 2, 3, 5, 9, 17]"

text \<open>
  A function with an output parameter returns a sum: \<open>Inl status\<close> when it returns
  \<open>status\<close> without writing the output, \<open>Inr v\<close> when it writes \<open>v\<close> and returns
  \<open>ms5805_status_ok\<close>.
\<close>

fun status_of :: "ms5805_status + 'a \<Rightarrow> ms5805_status" where
  "status_of (Inl status) = status"
| "status_of (Inr v) = ms5805_status_ok"

definition write_command :: "u8 \<Rightarrow> wire \<Rightarrow> ms5805_status \<times> wire" where
  "write_command cmd w =
     (let (i2c_status, w1) = Wire_transmit cmd w
      in if i2c_status = ms5805_STATUS_ERR_OVERFLOW then (ms5805_status_no_i2c_acknowledge, w1)
         else if i2c_status \<noteq> ms5805_STATUS_OK then (ms5805_status_i2c_transfer_error, w1)
         else (ms5805_status_ok, w1))"

definition reset :: "wire \<Rightarrow> ms5805_status \<times> wire" where
  "reset w = write_command MS5805_RESET_COMMAND w"

definition set_resolution :: "ms5805_resolution_osr \<Rightarrow> ms5805 \<Rightarrow> ms5805" where
  "set_resolution res d = d\<lparr>ms5805_resolution_osr := res\<rparr>"

section \<open>Reading the coefficients\<close>

definition read_eeprom_coeff :: "u8 \<Rightarrow> wire \<Rightarrow> (ms5805_status + u16) \<times> wire" where
  "read_eeprom_coeff command w =
     (let (i2c_status, w1) = Wire_transmit command w;
          w2 = Wire_requestFrom 2 w1;
          (buffer0, w3) = Wire_read w2;
          (buffer1, w4) = Wire_read w3
      in if i2c_status = ms5805_STATUS_ERR_OVERFLOW
         then (Inl ms5805_status_no_i2c_acknowledge, w4)
         else (Inr (push_bit 8 (ucast buffer0) OR ucast buffer1), w4))"

text \<open>The loop of \<open>read_eeprom\<close>, from the counter value \<open>i\<close> on; it returns from inside
  the loop at the first status that is not \<open>ms5805_status_ok\<close>.\<close>

function read_eeprom_loop :: "nat \<Rightarrow> u16 list \<Rightarrow> wire \<Rightarrow> ms5805_status \<times> u16 list \<times> wire" where
  "read_eeprom_loop i coeffs w =
     (if i < MS5805_COEFFICIENT_COUNT then
        (case read_eeprom_coeff (MS5805_PROM_ADDRESS_READ_ADDRESS_0 + of_nat i * 2) w of
           (Inl status, w') \<Rightarrow> (status, coeffs, w')
         | (Inr coeff, w') \<Rightarrow> read_eeprom_loop (Suc i) (coeffs[i := coeff]) w')
      else (ms5805_status_ok, coeffs, w))"
  by pat_completeness auto
termination
  by (relation "measure (\<lambda>(i, coeffs, w). MS5805_COEFFICIENT_COUNT - i)") auto

definition read_eeprom :: "ms5805 \<Rightarrow> wire \<Rightarrow> ms5805_status \<times> ms5805 \<times> wire" where
  "read_eeprom d w =
     (case read_eeprom_loop 0 (eeprom_coeff d) w of
        (status, coeffs, w') \<Rightarrow>
          if status \<noteq> ms5805_status_ok then (status, d\<lparr>eeprom_coeff := coeffs\<rparr>, w')
          else
            (case crc_check coeffs (ucast (drop_bit 12 (coeffs ! MS5805_CRC_INDEX AND 0xF000))) of
               (crc_ok, coeffs') \<Rightarrow>
                 if \<not> crc_ok then (ms5805_status_crc_error, d\<lparr>eeprom_coeff := coeffs'\<rparr>, w')
                 else (ms5805_status_ok, d\<lparr>eeprom_coeff := coeffs', coeff_read := True\<rparr>, w')))"

section \<open>Conversion and ADC read\<close>

text \<open>
  The local \<open>status\<close> of \<open>conversion_and_read_adc\<close> is declared without an initialiser and
  never assigned; both tests \<open>status != ms5805_status_ok\<close> and the final \<open>return status\<close>
  read it. Its value at the call is the first argument of the model. The index
  \<open>(cmd & MS5805_CONVERSION_OSR_MASK) / 2\<close> into \<open>conversion_time\<close> is at most 5 for the
  commands \<open>read_temperature_and_pressure\<close> builds; for an index beyond the array, which
  C leaves undefined, the model waits 0 ms.
\<close>

definition conversion_and_read_adc ::
  "ms5805_status \<Rightarrow> u8 \<Rightarrow> wire \<Rightarrow> (ms5805_status + u32) \<times> wire" where
  "conversion_and_read_adc status cmd w =
     (let (_, w1) = Wire_transmit cmd w;
          osr = unat (cmd AND MS5805_CONVERSION_OSR_MASK) div 2;
          w2 = delay (if osr < 6 then conversion_time ! osr else 0) w1;
          (i2c_status, w3) = Wire_transmit 0x00 w2;
          w4 = Wire_requestFrom 3 w3;
          (buffer0, w5) = Wire_read w4;
          (buffer1, w6) = Wire_read w5;
          (buffer2, w7) = Wire_read w6
      in if status \<noteq> ms5805_status_ok then (Inl status, w7)
         else if i2c_status = ms5805_STATUS_ERR_OVERFLOW
         then (Inl ms5805_status_no_i2c_acknowledge, w7)
         else if i2c_status \<noteq> ms5805_STATUS_OK
         then (Inl ms5805_status_i2c_transfer_error, w7)
         else (Inr (push_bit 16 (ucast buffer0) OR push_bit 8 (ucast buffer1) OR ucast buffer2),
               w7))"

section \<open>Compensation\<close>

text \<open>
  C's \<open>/\<close> on \<open>int64_t\<close>: the quotient truncated towards zero.
\<close>

definition sdiv64 :: "i64 \<Rightarrow> i64 \<Rightarrow> i64" where
  "sdiv64 a b = word_of_int (sint a sdiv sint b)"

text \<open>The second order temperature compensation: the values of \<open>T2\<close>, \<open>OFF2\<close> and
  \<open>SENS2\<close> after the \<open>if (TEMP < 2000) ... else ...\<close> statement.\<close>

definition second_order :: "i32 \<Rightarrow> i32 \<Rightarrow> i64 \<times> i64 \<times> i64" where
  "second_order dT TEMP =
     (if TEMP <s 2000 then
        (let T2 = signed_drop_bit 33 (3 * (scast dT * scast dT));
             OFF2 = sdiv64 (61 * (scast TEMP - 2000) * (scast TEMP - 2000)) 16;
             SENS2 = sdiv64 (29 * (scast TEMP - 2000) * (scast TEMP - 2000)) 16
         in if TEMP <s - 1500
            then (T2, OFF2 + 17 * (scast TEMP + 1500) * (scast TEMP + 1500),
                  SENS2 + 9 * (scast TEMP + 1500) * (scast TEMP + 1500))
            else (T2, OFF2, SENS2))
      else (signed_drop_bit 38 (5 * (scast dT * scast dT)), 0, 0))"

text \<open>
  The outputs are \<open>float\<close>s: \<open>((float)TEMP - T2) / 100\<close> and \<open>(float)P / 100\<close>. The model
  keeps the two integers that are divided by 100, in hundredths of a degree Celsius and of
  a millibar; the conversion to \<open>float\<close> and the division are not modelled.
\<close>

record reading =
  temperature_x100 :: int
  pressure_x100 :: int

text \<open>\<open>dT = (int32_t)adc_temperature - ((int32_t)eeprom_coeff[5] << 8)\<close>\<close>

definition compute_dT :: "u16 list \<Rightarrow> u32 \<Rightarrow> i32" where
  "compute_dT coeff adc_temperature =
     adc_temperature - push_bit 8 (ucast (coeff ! MS5805_REFERENCE_TEMPERATURE_INDEX))"

text \<open>\<open>TEMP = 2000 + ((int64_t)dT * (int64_t)eeprom_coeff[6] >> 23)\<close>, the 64-bit sum
  converted to \<open>int32_t\<close>.\<close>

definition compute_TEMP :: "u16 list \<Rightarrow> i32 \<Rightarrow> i32" where
  "compute_TEMP coeff dT =
     ucast (2000 + signed_drop_bit 23
              ((scast dT :: i64) * ucast (coeff ! MS5805_TEMP_COEFF_OF_TEMPERATURE_INDEX)))"

definition compensate :: "u16 list \<Rightarrow> u32 \<Rightarrow> u32 \<Rightarrow> reading" where
  "compensate coeff adc_temperature adc_pressure =
     (let dT = compute_dT coeff adc_temperature;
          TEMP = compute_TEMP coeff dT;
          (T2, OFF2, SENS2) = second_order dT TEMP;
          OFF = push_bit 17 (ucast (coeff ! MS5805_PRESSURE_OFFSET_INDEX) :: i64) +
                signed_drop_bit 6
                  (ucast (coeff ! MS5805_TEMP_COEFF_OF_PRESSURE_OFFSET_INDEX) * scast dT) - OFF2;
          SENS = push_bit 16 (ucast (coeff ! MS5805_PRESSURE_SENSITIVITY_INDEX) :: i64) +
                 signed_drop_bit 7
                   (ucast (coeff ! MS5805_TEMP_COEFF_OF_PRESSURE_SENSITIVITY_INDEX) * scast dT) -
                 SENS2;
          P = signed_drop_bit 15 (signed_drop_bit 21 (ucast adc_pressure * SENS) - OFF)
      in \<lparr>temperature_x100 = sint TEMP - sint T2, pressure_x100 = sint P\<rparr>)"

section \<open>Reading temperature and pressure\<close>

text \<open>The first statements of \<open>read_temperature_and_pressure\<close>:
  \<open>status = ms5805_status_ok; if (coeff_read == false) status = read_eeprom();\<close>\<close>

definition load_coefficients :: "ms5805 \<Rightarrow> wire \<Rightarrow> ms5805_status \<times> ms5805 \<times> wire" where
  "load_coefficients d w =
     (if coeff_read d = False then read_eeprom d w else (ms5805_status_ok, d, w))"

text \<open>
  The command bytes: \<open>cmd = ms5805_resolution_osr * 2; cmd |=
  MS5805_START_..._ADC_CONVERSION;\<close>
\<close>

definition temperature_cmd :: "ms5805 \<Rightarrow> u8" where
  "temperature_cmd d =
     osr_value (ms5805_resolution_osr d) * 2 OR MS5805_START_TEMPERATURE_ADC_CONVERSION"

definition pressure_cmd :: "ms5805 \<Rightarrow> u8" where
  "pressure_cmd d =
     osr_value (ms5805_resolution_osr d) * 2 OR MS5805_START_PRESSURE_ADC_CONVERSION"

text \<open>
  \<open>status_t\<close> and \<open>status_p\<close> are the values the uninitialised local \<open>status\<close> holds in the
  first and in the second call of \<open>conversion_and_read_adc\<close>.
\<close>

definition read_temperature_and_pressure ::
  "ms5805_status \<Rightarrow> ms5805_status \<Rightarrow> ms5805 \<Rightarrow> wire \<Rightarrow> (ms5805_status + reading) \<times> ms5805 \<times> wire"
  where
  "read_temperature_and_pressure status_t status_p d w =
     (case load_coefficients d w of
        (status, d1, w1) \<Rightarrow>
          if status \<noteq> ms5805_status_ok then (Inl status, d1, w1)
          else
            (case conversion_and_read_adc status_t (temperature_cmd d1) w1 of
               (Inl status, w2) \<Rightarrow> (Inl status, d1, w2)
             | (Inr adc_temperature, w2) \<Rightarrow>
                 (case conversion_and_read_adc status_p (pressure_cmd d1) w2 of
                    (Inl status, w3) \<Rightarrow> (Inl status, d1, w3)
                  | (Inr adc_pressure, w3) \<Rightarrow>
                      if adc_temperature = 0 \<or> adc_pressure = 0
                      then (Inl ms5805_status_i2c_transfer_error, d1, w3)
                      else (Inr (compensate (eeprom_coeff d1) adc_temperature adc_pressure),
                            d1, w3))))"

section \<open>Descriptions of the CRC check to compare the code with\<close>

text \<open>The table as a stream of bytes, the most significant byte of each word first.\<close>

definition table_bytes :: "u16 list \<Rightarrow> u8 list" where
  "table_bytes ws = concat (map (\<lambda>w. [ucast (drop_bit 8 w), ucast w]) ws)"

text \<open>One bit step: shift left by one, and XOR with \<open>0x3000\<close> when the top bit was set
  before the shift.\<close>

definition crc_bit_step :: "u16 \<Rightarrow> u16" where
  "crc_bit_step r = (if bit r 15 then push_bit 1 r XOR 0x3000 else push_bit 1 r)"

text \<open>
  The description that XORs a byte into the high byte of the remainder at an even byte
  index and into the low byte at an odd one; \<open>i\<close> is the index of the next byte.
\<close>

fun parity_crc_bytes :: "nat \<Rightarrow> u8 list \<Rightarrow> u16 \<Rightarrow> u16" where
  "parity_crc_bytes i [] r = r"
| "parity_crc_bytes i (b # bs) r =
     parity_crc_bytes (Suc i) bs
       ((crc_bit_step ^^ 8) (if even i then r XOR push_bit 8 (ucast b) else r XOR ucast b))"

definition parity_crc_check :: "u16 list \<Rightarrow> u8 \<Rightarrow> bool" where
  "parity_crc_check ws crc =
     (drop_bit 12 (parity_crc_bytes 0 (table_bytes (ws[0 := ws ! 0 AND 0x0FFF, 7 := 0])) 0) =
      ucast crc)"

text \<open>The description that XORs every byte into the low byte of the remainder.\<close>

fun low_crc_bytes :: "u8 list \<Rightarrow> u16 \<Rightarrow> u16" where
  "low_crc_bytes [] r = r"
| "low_crc_bytes (b # bs) r = low_crc_bytes bs ((crc_bit_step ^^ 8) (r XOR ucast b))"

definition low_crc_check :: "u16 list \<Rightarrow> u8 \<Rightarrow> bool" where
  "low_crc_check ws crc =
     (drop_bit 12 (low_crc_bytes (table_bytes (ws[0 := ws ! 0 AND 0x0FFF, 7 := 0])) 0) =
      ucast crc)"

section \<open>Descriptions of the bus traffic\<close>

text \<open>
  The \<open>i\<close>-th byte read from a receive buffer holding \<open>bs\<close>:
  \<open>0xFF\<close> once the buffer is empty.
\<close>

definition byte_or_ff :: "u8 list \<Rightarrow> nat \<Rightarrow> u8" where
  "byte_or_ff bs i = (if i < length bs then bs ! i else 0xFF)"

text \<open>
  The 16-bit word made, high byte first, of the two bytes read after the request that
  completes the history \<open>t\<close>.
\<close>

definition received_word :: "wire \<Rightarrow> bus_op list \<Rightarrow> u16" where
  "received_word w t =
     (let bs = take 2 (rx_bytes w t)
      in push_bit 8 (ucast (byte_or_ff bs 0)) OR ucast (byte_or_ff bs 1))"

text \<open>
  The 24-bit value made, high byte first, of the three bytes read after the request that
  completes the history \<open>t\<close>.
\<close>

definition received_adc :: "wire \<Rightarrow> bus_op list \<Rightarrow> u32" where
  "received_adc w t =
     (let bs = take 3 (rx_bytes w t)
      in push_bit 16 (ucast (byte_or_ff bs 0)) OR push_bit 8 (ucast (byte_or_ff bs 1)) OR
         ucast (byte_or_ff bs 2))"

text \<open>
  The bus operations of one conversion: start command, delay, address byte
  \<open>0x00\<close>, request of 3 bytes.
\<close>

definition conversion_ops :: "u8 \<Rightarrow> bus_op list" where
  "conversion_ops cmd =
     [Transmit cmd,
      Delay (let osr = unat (cmd AND MS5805_CONVERSION_OSR_MASK) div 2
             in if osr < 6 then conversion_time ! osr else 0),
      Transmit 0x00, RequestFrom 3]"

text \<open>
  The bus operations that read the words \<open>i\<close> to \<open>k - 1\<close>: for each,
  the address-select command and a request of 2 bytes.
\<close>

definition prom_read_ops :: "nat \<Rightarrow> nat \<Rightarrow> bus_op list" where
  "prom_read_ops i k =
     concat (map (\<lambda>j. [Transmit (MS5805_PROM_ADDRESS_READ_ADDRESS_0 + of_nat j * 2),
                         RequestFrom 2]) [i..<k])"

text \<open>
  The operations of a coefficient read: a command with a PROM address, a request of 2 bytes.
\<close>

definition is_coefficient_read :: "bus_op \<Rightarrow> bool" where
  "is_coefficient_read op =
     (case op of Transmit c \<Rightarrow> c AND 0xF0 = MS5805_PROM_ADDRESS_READ_ADDRESS_0
      | RequestFrom n \<Rightarrow> n = 2 | Delay ms \<Rightarrow> False)"

text \<open>
  The same bus, except that the transmission that completes the history \<open>h\<close> ends with
  the status \<open>s\<close>.
\<close>

definition with_end_status :: "bus_op list \<Rightarrow> u8 \<Rightarrow> wire \<Rightarrow> wire" where
  "with_end_status h s w = w\<lparr>end_status := (end_status w)(h := s)\<rparr>"

section \<open>The compensation in unbounded integers\<close>

text \<open>
  The formulas of the compensation on \<open>int\<close>, where nothing wraps around: \<open>push_bit n\<close> is
  the multiplication by \<open>2 ^ n\<close> and \<open>drop_bit n\<close> the arithmetic shift to the right, that is
  the division by \<open>2 ^ n\<close> rounded towards minus infinity. First the second order terms, as
  functions of \<open>dT\<close> and \<open>TEMP\<close>.
\<close>

definition spec_T2 :: "int \<Rightarrow> int \<Rightarrow> int" where
  "spec_T2 dT TEMP =
     (if TEMP < 2000 then drop_bit 33 (3 * dT * dT) else drop_bit 38 (5 * dT * dT))"

definition spec_OFF2 :: "int \<Rightarrow> int" where
  "spec_OFF2 TEMP =
     (if TEMP < 2000
      then 61 * (TEMP - 2000)\<^sup>2 div 16 + (if TEMP < - 1500 then 17 * (TEMP + 1500)\<^sup>2 else 0)
      else 0)"

definition spec_SENS2 :: "int \<Rightarrow> int" where
  "spec_SENS2 TEMP =
     (if TEMP < 2000
      then 29 * (TEMP - 2000)\<^sup>2 div 16 + (if TEMP < - 1500 then 9 * (TEMP + 1500)\<^sup>2 else 0)
      else 0)"

text \<open>
  The whole compensation; \<open>C i\<close> is the coefficient at index \<open>i\<close>.
\<close>

definition spec_compensate :: "(nat \<Rightarrow> int) \<Rightarrow> int \<Rightarrow> int \<Rightarrow> reading" where
  "spec_compensate C rawTemp rawPressure =
     (let dT = rawTemp - push_bit 8 (C 5);
          TEMP = 2000 + drop_bit 23 (dT * C 6);
          T2 = spec_T2 dT TEMP;
          OFF2 = spec_OFF2 TEMP;
          SENS2 = spec_SENS2 TEMP;
          OFF = push_bit 17 (C 2) + drop_bit 6 (C 4 * dT) - OFF2;
          SENS = push_bit 16 (C 1) + drop_bit 7 (C 3 * dT) - SENS2;
          P = drop_bit 15 (drop_bit 21 (rawPressure * SENS) - OFF)
      in \<lparr>temperature_x100 = TEMP - T2, pressure_x100 = P\<rparr>)"

section \<open>A simulated sensor for the examples\<close>

text \<open>
  A device that answers a PROM address with the two bytes of the word stored there, and the
  address byte \<open>0x00\<close> with the three bytes of the conversion started before:
  \<open>d2\<close> for a temperature conversion, \<open>d1\<close> for a pressure conversion.
\<close>

definition sensor_rx :: "u16 list \<Rightarrow> u32 \<Rightarrow> u32 \<Rightarrow> bus_op list \<Rightarrow> u8 list" where
  "sensor_rx prom d1 d2 t =
     (case rev t of
        RequestFrom n # Transmit c # rest \<Rightarrow>
          if c AND 0xF0 = 0xA0 then
            (let v = prom ! (unat (c AND 0x0F) div 2) in [ucast (drop_bit 8 v), ucast v])
          else if c = 0 then
            (case rest of
               Delay ms # Transmit c' # rest' \<Rightarrow>
                 (let v = (if c' AND 0xF0 = 0x50 then d2 else d1)
                  in [ucast (drop_bit 16 v), ucast (drop_bit 8 v), ucast v])
             | _ \<Rightarrow> [])
          else []
      | _ \<Rightarrow> [])"

text \<open>
  The bus of such a device, acknowledging every transmission, with nothing done on it yet.
\<close>

definition sensor :: "u16 list \<Rightarrow> u32 \<Rightarrow> u32 \<Rightarrow> wire" where
  "sensor prom d1 d2 =
     \<lparr>end_status = (\<lambda>t. 0), rx_bytes = sensor_rx prom d1 d2, trace = [], rx_buffer = []\<rparr>"

text \<open>A PROM content with a matching CRC, and one with a CRC that does not match.\<close>

definition example_prom :: "u16 list" where
  "example_prom = [0x8000, 46372, 43981, 29059, 27842, 31553, 28165, 0]"

definition corrupt_prom :: "u16 list" where
  "corrupt_prom = [0x1000, 46372, 43981, 29059, 27842, 31553, 28165, 0]"

text \<open>A driver before its first measurement and one with the coefficients loaded.\<close>

definition fresh_driver :: ms5805 where
  "fresh_driver =
     \<lparr>eeprom_coeff = [0, 0, 0, 0, 0, 0, 0, 0], coeff_read = False,
      ms5805_resolution_osr = ms5805_resolution_osr_8192\<rparr>"

definition loaded_driver :: ms5805 where
  "loaded_driver =
     \<lparr>eeprom_coeff = example_prom, coeff_read = True,
      ms5805_resolution_osr = ms5805_resolution_osr_8192\<rparr>"

definition example_sensor :: wire where
  "example_sensor = sensor example_prom 6465444 8077636"

definition corrupt_sensor :: wire where
  "corrupt_sensor = sensor corrupt_prom 6465444 8077636"

definition zero_sensor :: wire where
  "zero_sensor = sensor example_prom 6465444 0"

text \<open>A bus on which every transmission ends with a timeout and no byte arrives.\<close>

definition timeout_wire :: wire where
  "timeout_wire =
     \<lparr>end_status = (\<lambda>t. ms5805_STATUS_ERR_TIMEOUT), rx_bytes = (\<lambda>t. []), trace = [],
      rx_buffer = []\<rparr>"

text \<open>
  A table and a raw temperature that give \<open>TEMP = -1500\<close>: the table below with
  the raw value 128000.
\<close>

definition cold_prom :: "u16 list" where
  "cold_prom = [0, 46372, 43981, 29059, 27842, 4000, 32768, 0]"

section \<open>Unfolding the iterations\<close>

lemmas ms5805_constants =
  ms5805_STATUS_OK_def ms5805_STATUS_ERR_OVERFLOW_def ms5805_STATUS_ERR_TIMEOUT_def
  MS5805_COEFFICIENT_COUNT_def MS5805_RESET_COMMAND_def
  MS5805_START_PRESSURE_ADC_CONVERSION_def MS5805_START_TEMPERATURE_ADC_CONVERSION_def
  MS5805_READ_ADC_def MS5805_CONVERSION_OSR_MASK_def MS5805_PROM_ADDRESS_READ_ADDRESS_0_def
  MS5805_CRC_INDEX_def MS5805_PRESSURE_SENSITIVITY_INDEX_def MS5805_PRESSURE_OFFSET_INDEX_def
  MS5805_TEMP_COEFF_OF_PRESSURE_SENSITIVITY_INDEX_def
  MS5805_TEMP_COEFF_OF_PRESSURE_OFFSET_INDEX_def MS5805_REFERENCE_TEMPERATURE_INDEX_def
  MS5805_TEMP_COEFF_OF_TEMPERATURE_INDEX_def

declare crc_loop.simps [simp del]
declare read_eeprom_loop.simps [simp del]

lemma crc_loop_step:
  "cnt < 16 \<Longrightarrow> crc_loop n_prom cnt n_rem =
     crc_loop n_prom (cnt + 1) (crc_bits 8 (crc_next_byte n_prom cnt n_rem))"
  by (subst crc_loop.simps) (simp add: MS5805_COEFFICIENT_COUNT_def)

lemma crc_loop_done: "\<not> cnt < 16 \<Longrightarrow> crc_loop n_prom cnt n_rem = n_rem"
  by (subst crc_loop.simps) (simp add: MS5805_COEFFICIENT_COUNT_def)

lemma crc_bits_numeral: "crc_bits (numeral n) r = crc_bits (pred_numeral n) (crc_shift r)"
  by (simp add: numeral_eq_Suc)

lemmas crc_eval =
  crc_loop_step crc_loop_done crc_bits_numeral crc_next_byte_def crc_shift_def
  MS5805_COEFFICIENT_COUNT_def

lemma list8:
  assumes "length (xs :: 'a list) = 8"
  obtains a b c d e f g h where "xs = [a, b, c, d, e, f, g, h]"
  using assms by (auto simp: length_Suc_conv eval_nat_numeral)

section \<open>The CRC check: result and effect on the array\<close>

lemma top_bit_test: "(x AND (0x8000::u16) \<noteq> 0) = bit x 15"
proof -
  have "(0x8000::u16) = 2 ^ 15" by simp
  then show ?thesis by (simp only: and_exp_eq_0_iff_not_bit) simp
qed

lemma crc_shift_eq: "crc_shift r = crc_bit_step r"
  by (simp only: crc_shift_def crc_bit_step_def top_bit_test)

lemma crc_bits_funpow: "crc_bits n r = (crc_bit_step ^^ n) r"
  by (induction n arbitrary: r) (simp_all add: crc_shift_eq funpow_swap1)

lemma byte_mask: "(0x00FF :: u16) = mask 8"
  by (simp add: mask_eq_exp_minus_1)

lemma high_byte_cast: "drop_bit 8 (w :: u16) AND 0x00FF = drop_bit 8 w"
  unfolding byte_mask by (auto simp add: bit_eq_iff bit_simps dest: bit_imp_le_length)

lemma byte_cast: "ucast (ucast w :: u8) = (w :: u16) AND 0x00FF"
  unfolding byte_mask by (auto simp add: bit_eq_iff bit_simps)

lemma crc_loop_low_bytes:
  "crc_loop [a, b, c, d, e, f, g, h] 0 0 = low_crc_bytes (table_bytes [a, b, c, d, e, f, g, h]) 0"
  by (simp add: crc_loop_step crc_loop_done crc_next_byte_def crc_bits_funpow table_bytes_def
      byte_cast high_byte_cast)

lemma crc_check_array:
  assumes "length n_prom = 8"
  shows "snd (crc_check n_prom crc) = n_prom[7 := 0]"
proof -
  obtain a b c d e f g h where n: "n_prom = [a, b, c, d, e, f, g, h]"
    using assms by (rule list8)
  show ?thesis
    unfolding crc_check_def Let_def n
    by (simp add: MS5805_COEFFICIENT_COUNT_def)
qed

text \<open>
  C3, as amended. For every table of 8 words and every expected value, \<open>crc_check\<close>
  returns true exactly when the following gives the expected value: the remainder starts
  at zero, word 0 is masked to its low 12 bits and word 7 is zero, the 8 words are taken as
  16 bytes with the most significant byte of each word first, every byte is XOR-ed into the
  low byte of the remainder, each byte is followed by 8 bit steps (shift left by one, XOR
  with \<open>0x3000\<close> when the top bit was set before the shift), and the final remainder is
  shifted right by 12.
\<close>

theorem crc_check_low_byte_reference:
  assumes "length n_prom = 8"
  shows "fst (crc_check n_prom crc) = low_crc_check n_prom crc"
proof -
  obtain a b c d e f g h where n: "n_prom = [a, b, c, d, e, f, g, h]"
    using assms by (rule list8)
  show ?thesis
    unfolding crc_check_def low_crc_check_def Let_def n
    by (simp add: MS5805_COEFFICIENT_COUNT_def crc_loop_low_bytes and.commute)
qed

theorem crc_check_low_byte_reference_witness:
  "length [0x8000, 46372, 43981, 29059, 27842, 31553, 28165, 0 :: u16] = 8 \<and>
   low_crc_check [0x8000, 46372, 43981, 29059, 27842, 31553, 28165, 0] 8"
proof -
  have "fst (crc_check [0x8000, 46372, 43981, 29059, 27842, 31553, 28165, 0] 8)"
    unfolding crc_check_def Let_def by (simp add: crc_eval)
  then show ?thesis
    using crc_check_low_byte_reference
      [of "[0x8000, 46372, 43981, 29059, 27842, 31553, 28165, 0]" 8]
    by simp
qed

text \<open>
  C3, as stated, fails: on the table below \<open>crc_check\<close> accepts the expected value 8, and
  the description that XORs the bytes of even index into the high byte of the remainder
  rejects it.
\<close>

theorem crc_check_parity_counterexample:
  "fst (crc_check [0x8000, 46372, 43981, 29059, 27842, 31553, 28165, 0] 8) \<and>
   \<not> parity_crc_check [0x8000, 46372, 43981, 29059, 27842, 31553, 28165, 0] 8"
proof -
  have "fst (crc_check [0x8000, 46372, 43981, 29059, 27842, 31553, 28165, 0] 8)"
    unfolding crc_check_def Let_def by (simp add: crc_eval)
  moreover have "\<not> parity_crc_check [0x8000, 46372, 43981, 29059, 27842, 31553, 28165, 0] 8"
    unfolding parity_crc_check_def
    by (simp add: table_bytes_def crc_bits_funpow [symmetric] crc_bits_numeral crc_shift_def)
  ultimately show ?thesis by simp
qed

text \<open>
  C9, as amended. For every table of 8 words, after \<open>crc_check\<close> returns the word at index 0
  is the one it was before the call (its masking is temporary), the words at indices 1 to 6
  are unchanged, and the word at index 7 is zero: its zeroing is not undone.
\<close>

theorem crc_check_restores_crc_word:
  assumes "length n_prom = 8"
  shows "snd (crc_check n_prom crc) ! 0 = n_prom ! 0 \<and>
         snd (crc_check n_prom crc) = n_prom[7 := 0]"
  using assms by (simp add: crc_check_array)

theorem crc_check_restores_crc_word_witness:
  "snd (crc_check [0x8000, 46372, 43981, 29059, 27842, 31553, 28165, 5] 8) ! 0 = 0x8000 \<and>
   snd (crc_check [0x8000, 46372, 43981, 29059, 27842, 31553, 28165, 5] 8) =
     [0x8000, 46372, 43981, 29059, 27842, 31553, 28165, 0]"
  using crc_check_restores_crc_word [of "[0x8000, 46372, 43981, 29059, 27842, 31553, 28165, 5]" 8]
  by simp

text \<open>
  C9, as stated, fails: a word at index 7 that is not zero before the call is zero after
  it.
\<close>

theorem crc_check_slot7_counterexample:
  "snd (crc_check [0x8000, 46372, 43981, 29059, 27842, 31553, 28165, 5] 8) ! 7 = 0 \<and>
   [0x8000, 46372, 43981, 29059, 27842, 31553, 28165, 5 :: u16] ! 7 = 5"
  unfolding crc_check_def Let_def by (simp add: MS5805_COEFFICIENT_COUNT_def)

section \<open>The bus traffic of the driver\<close>

lemma Wire_read_buffer:
  "Wire_read (w\<lparr>rx_buffer := bs\<rparr>) = (byte_or_ff bs 0, w\<lparr>rx_buffer := tl bs\<rparr>)"
  by (cases bs) (simp_all add: Wire_read_def byte_or_ff_def)

lemma byte_or_ff_tl: "byte_or_ff (tl bs) i = byte_or_ff bs (Suc i)"
  by (cases bs) (simp_all add: byte_or_ff_def)

lemma tl_take_empty2: "tl (tl (take 2 xs)) = []"
  by (cases xs; cases "tl xs") (auto simp: numeral_2_eq_2)

lemma tl_take_empty3: "tl (tl (tl (take 3 xs))) = []"
  by (cases xs; cases "tl xs"; cases "tl (tl xs)") (auto simp: numeral_3_eq_3)

lemma read_eeprom_coeff_eq:
  "read_eeprom_coeff command w =
     (if end_status w (trace w @ [Transmit command]) = ms5805_STATUS_ERR_OVERFLOW
      then Inl ms5805_status_no_i2c_acknowledge
      else Inr (received_word w (trace w @ [Transmit command, RequestFrom 2])),
      w\<lparr>trace := trace w @ [Transmit command, RequestFrom 2], rx_buffer := []\<rparr>)"
  unfolding read_eeprom_coeff_def Wire_transmit_def Wire_requestFrom_def Let_def received_word_def
  by (simp add: Wire_read_buffer byte_or_ff_tl tl_take_empty2)

lemma conversion_and_read_adc_eq:
  "conversion_and_read_adc status cmd w =
     (if status \<noteq> ms5805_status_ok then Inl status
      else if end_status w (trace w @ butlast (conversion_ops cmd)) = ms5805_STATUS_ERR_OVERFLOW
      then Inl ms5805_status_no_i2c_acknowledge
      else if end_status w (trace w @ butlast (conversion_ops cmd)) \<noteq> ms5805_STATUS_OK
      then Inl ms5805_status_i2c_transfer_error
      else Inr (received_adc w (trace w @ conversion_ops cmd)),
      w\<lparr>trace := trace w @ conversion_ops cmd, rx_buffer := []\<rparr>)"
  unfolding conversion_and_read_adc_def Wire_transmit_def Wire_requestFrom_def delay_def Let_def
    received_adc_def conversion_ops_def
  by (simp add: Wire_read_buffer byte_or_ff_tl tl_take_empty3 numeral_2_eq_2)

lemma cmd_not_prom:
  "temperature_cmd d AND 0xF0 \<noteq> MS5805_PROM_ADDRESS_READ_ADDRESS_0"
  "pressure_cmd d AND 0xF0 \<noteq> MS5805_PROM_ADDRESS_READ_ADDRESS_0"
  by (cases "ms5805_resolution_osr d"; simp add: temperature_cmd_def pressure_cmd_def ms5805_constants)+

lemma conversion_ops_no_coefficient_read:
  "filter is_coefficient_read (conversion_ops (temperature_cmd d)) = []"
  "filter is_coefficient_read (conversion_ops (pressure_cmd d)) = []"
  by (simp_all add: conversion_ops_def is_coefficient_read_def cmd_not_prom)
     (simp_all add: ms5805_constants)

lemma read_eeprom_ok_validated:
  assumes "read_eeprom d0 w0 = (ms5805_status_ok, d, w1)"
  shows "coeff_read d"
  using assms unfolding read_eeprom_def
  by (auto split: prod.splits if_splits)

lemma cached_read:
  assumes "coeff_read d"
  shows "case read_temperature_and_pressure status_t status_p d w of
           (r, d', w') \<Rightarrow>
             d' = d \<and>
             (trace w' = trace w @ conversion_ops (temperature_cmd d) \<or>
              trace w' = trace w @ conversion_ops (temperature_cmd d) @
                           conversion_ops (pressure_cmd d)) \<and>
             (case r of Inl status \<Rightarrow> True
              | Inr x \<Rightarrow> \<exists>t p. x = compensate (eeprom_coeff d) t p)"
  using assms unfolding read_temperature_and_pressure_def load_coefficients_def
  by (auto simp add: conversion_and_read_adc_eq)

text \<open>
  C6. After a call of \<open>read_eeprom\<close> that returned \<open>ms5805_status_ok\<close> the flag
  \<open>coeff_read\<close> is set, and from then on \<open>read_temperature_and_pressure\<close> does not load
  the coefficients: the driver object is unchanged by the call (so the same holds for
  every later call), the only bus operations are those of one or two conversions, none
  of them an operation of a coefficient read, and a reading it returns is computed from
  the cached table.
\<close>

theorem cached_coefficients_skip_fetch:
  assumes "read_eeprom d0 w0 = (ms5805_status_ok, d, w1)"
  shows "coeff_read d \<and> load_coefficients d w = (ms5805_status_ok, d, w) \<and>
         (case read_temperature_and_pressure status_t status_p d w of
            (r, d', w') \<Rightarrow>
              d' = d \<and>
              (\<exists>ops. trace w' = trace w @ ops \<and> filter is_coefficient_read ops = []) \<and>
              (trace w' = trace w @ conversion_ops (temperature_cmd d) \<or>
               trace w' = trace w @ conversion_ops (temperature_cmd d) @
                            conversion_ops (pressure_cmd d)) \<and>
              (case r of Inl status \<Rightarrow> True
               | Inr x \<Rightarrow> \<exists>t p. x = compensate (eeprom_coeff d) t p))"
proof -
  have v: "coeff_read d" using assms by (rule read_eeprom_ok_validated)
  then have l: "load_coefficients d w = (ms5805_status_ok, d, w)"
    by (simp add: load_coefficients_def)
  obtain r d' w' where e: "read_temperature_and_pressure status_t status_p d w = (r, d', w')"
    by (cases "read_temperature_and_pressure status_t status_p d w") 
  from cached_read [OF v, where w = w and status_t = status_t and status_p = status_p] e
  have c: "d' = d"
    "trace w' = trace w @ conversion_ops (temperature_cmd d) \<or>
     trace w' = trace w @ conversion_ops (temperature_cmd d) @ conversion_ops (pressure_cmd d)"
    "case r of Inl status \<Rightarrow> True | Inr x \<Rightarrow> \<exists>t p. x = compensate (eeprom_coeff d) t p"
    by simp_all
  from c(2) have "\<exists>ops. trace w' = trace w @ ops \<and> filter is_coefficient_read ops = []"
    by (auto simp: conversion_ops_no_coefficient_read)
  with v l e c show ?thesis by simp
qed

text \<open>
  C8. When the coefficients are available and both conversions have returned a raw value,
  and one of the two raw values is zero, \<open>read_temperature_and_pressure\<close> returns
  \<open>ms5805_status_i2c_transfer_error\<close> and writes no output.
\<close>

theorem zero_adc_is_transfer_error:
  assumes "load_coefficients d w = (ms5805_status_ok, d1, w1)"
    and "conversion_and_read_adc status_t (temperature_cmd d1) w1 = (Inr adc_temperature, w2)"
    and "conversion_and_read_adc status_p (pressure_cmd d1) w2 = (Inr adc_pressure, w3)"
    and "adc_temperature = 0 \<or> adc_pressure = 0"
  shows "read_temperature_and_pressure status_t status_p d w =
           (Inl ms5805_status_i2c_transfer_error, d1, w3)"
  using assms unfolding read_temperature_and_pressure_def by auto

lemma read_eeprom_loop_step:
  "i < 7 \<Longrightarrow> read_eeprom_loop i c w =
     (if end_status w (trace w @ butlast (prom_read_ops i (Suc i))) = ms5805_STATUS_ERR_OVERFLOW
      then (ms5805_status_no_i2c_acknowledge, c,
            w\<lparr>trace := trace w @ prom_read_ops i (Suc i), rx_buffer := []\<rparr>)
      else read_eeprom_loop (Suc i)
             (c[i := received_word w (trace w @ prom_read_ops i (Suc i))])
             (w\<lparr>trace := trace w @ prom_read_ops i (Suc i), rx_buffer := []\<rparr>))"
  by (subst read_eeprom_loop.simps)
     (simp add: MS5805_COEFFICIENT_COUNT_def read_eeprom_coeff_eq prom_read_ops_def)

lemma read_eeprom_loop_done: "\<not> i < 7 \<Longrightarrow> read_eeprom_loop i c w = (ms5805_status_ok, c, w)"
  by (subst read_eeprom_loop.simps) (simp add: MS5805_COEFFICIENT_COUNT_def)

lemma prom_read_ops_Suc:
  "i < k \<Longrightarrow> prom_read_ops i k = prom_read_ops i (Suc i) @ prom_read_ops (Suc i) k"
  by (simp add: prom_read_ops_def upt_conv_Cons)

lemma prom_read_ops_empty [simp]: "prom_read_ops i i = []"
  by (simp add: prom_read_ops_def)

lemma received_word_trace [simp]:
  "received_word (w\<lparr>trace := t, rx_buffer := b\<rparr>) h = received_word w h"
  by (simp add: received_word_def)

lemma read_eeprom_loop_inv:
  assumes "read_eeprom_loop i c w = (s, c', w')" and "i \<le> 7" and "length c = 8"
  shows "\<exists>k. i \<le> k \<and> k \<le> 7 \<and> trace w' = trace w @ prom_read_ops i k \<and>
             end_status w' = end_status w \<and> rx_bytes w' = rx_bytes w \<and> length c' = 8 \<and>
             (s = ms5805_status_no_i2c_acknowledge \<and> i < k \<or>
              s = ms5805_status_ok \<and> k = 7 \<and>
              (\<forall>j. c' ! j = (if i \<le> j \<and> j < 7
                              then received_word w (trace w @ prom_read_ops i (Suc j))
                              else c ! j)))"
  using assms
proof (induction "7 - i" arbitrary: i c w)
  case 0
  then have "i = 7" by simp
  with 0 show ?case by (auto simp: read_eeprom_loop_done)
next
  case (Suc n)
  then have i: "i < 7" by simp
  let ?w1 = "w\<lparr>trace := trace w @ prom_read_ops i (Suc i), rx_buffer := []\<rparr>"
  let ?c1 = "c[i := received_word w (trace w @ prom_read_ops i (Suc i))]"
  show ?case
  proof (cases "end_status w (trace w @ butlast (prom_read_ops i (Suc i))) =
                  ms5805_STATUS_ERR_OVERFLOW")
    case True
    with Suc.prems i have "s = ms5805_status_no_i2c_acknowledge" "c' = c" "w' = ?w1"
      by (simp_all add: read_eeprom_loop_step)
    with i Suc.prems(3) show ?thesis
      by (intro exI [of _ "Suc i"]) simp
  next
    case False
    with Suc.prems i have r: "read_eeprom_loop (Suc i) ?c1 ?w1 = (s, c', w')"
      by (simp add: read_eeprom_loop_step)
    have n: "n = 7 - Suc i" using Suc.hyps(2) by simp
    from Suc.hyps(1) [OF n r] i Suc.prems(3)
    obtain k where k: "Suc i \<le> k" "k \<le> 7"
      "trace w' = trace ?w1 @ prom_read_ops (Suc i) k"
      "end_status w' = end_status ?w1" "rx_bytes w' = rx_bytes ?w1" "length c' = 8"
      "s = ms5805_status_no_i2c_acknowledge \<and> Suc i < k \<or>
       s = ms5805_status_ok \<and> k = 7 \<and>
       (\<forall>j. c' ! j = (if Suc i \<le> j \<and> j < 7
                       then received_word ?w1 (trace ?w1 @ prom_read_ops (Suc i) (Suc j))
                       else ?c1 ! j))"
      by auto
    from k(1) have ik: "i < k" by simp
    have t: "trace w' = trace w @ prom_read_ops i k"
      using k(3) prom_read_ops_Suc [OF ik] by simp
    have "s = ms5805_status_no_i2c_acknowledge \<and> i < k \<or>
          s = ms5805_status_ok \<and> k = 7 \<and>
          (\<forall>j. c' ! j = (if i \<le> j \<and> j < 7
                          then received_word w (trace w @ prom_read_ops i (Suc j))
                          else c ! j))"
    proof (cases "s = ms5805_status_no_i2c_acknowledge \<and> Suc i < k")
      case True
      then show ?thesis by simp
    next
      case False
      with k(7) have ok: "s = ms5805_status_ok" "k = 7"
        and c: "\<And>j. c' ! j = (if Suc i \<le> j \<and> j < 7
                       then received_word ?w1 (trace ?w1 @ prom_read_ops (Suc i) (Suc j))
                       else ?c1 ! j)"
        by auto
      have "c' ! j = (if i \<le> j \<and> j < 7
                          then received_word w (trace w @ prom_read_ops i (Suc j))
                          else c ! j)" for j
      proof (cases "Suc i \<le> j \<and> j < 7")
        case True
        then have "i < Suc j" by simp
        from prom_read_ops_Suc [OF this] True c [of j] show ?thesis by simp
      next
        case False
        with c [of j] i Suc.prems(3) show ?thesis
          by (cases "j = i") auto
      qed
      with ok show ?thesis by simp
    qed
    with k ik t show ?thesis by (intro exI [of _ k]) simp
  qed
qed


lemma prom_read_ops_one:
  "prom_read_ops i (Suc i) = [Transmit (MS5805_PROM_ADDRESS_READ_ADDRESS_0 + of_nat i * 2), RequestFrom 2]"
  by (simp add: prom_read_ops_def)

lemma read_eeprom_loop_numeral:
  "i < 7 \<Longrightarrow> read_eeprom_loop i c w =
     (if end_status w (trace w @ [Transmit (0xA0 + of_nat i * 2)]) = 1
      then (ms5805_status_no_i2c_acknowledge, c,
            w\<lparr>trace := trace w @ [Transmit (0xA0 + of_nat i * 2), RequestFrom 2], rx_buffer := []\<rparr>)
      else read_eeprom_loop (i + 1)
             (c[i := received_word w (trace w @ [Transmit (0xA0 + of_nat i * 2), RequestFrom 2])])
             (w\<lparr>trace := trace w @ [Transmit (0xA0 + of_nat i * 2), RequestFrom 2], rx_buffer := []\<rparr>))"
  by (simp add: read_eeprom_loop_step prom_read_ops_one ms5805_constants)

lemma read_eeprom_loop_example:
  "read_eeprom_loop 0 [0, 0, 0, 0, 0, 0, 0, 0] example_sensor =
     (ms5805_status_ok, example_prom,
      example_sensor\<lparr>trace :=
         [Transmit 0xA0, RequestFrom 2, Transmit 0xA2, RequestFrom 2, Transmit 0xA4, RequestFrom 2,
          Transmit 0xA6, RequestFrom 2, Transmit 0xA8, RequestFrom 2, Transmit 0xAA, RequestFrom 2,
          Transmit 0xAC, RequestFrom 2], rx_buffer := []\<rparr>)"
  by (simp add: read_eeprom_loop_numeral read_eeprom_loop_done example_sensor_def sensor_def
      sensor_rx_def received_word_def byte_or_ff_def example_prom_def)

lemma crc_check_example: "crc_check example_prom 8 = (True, example_prom)"
  unfolding crc_check_def Let_def example_prom_def by (simp add: crc_eval)

lemma read_eeprom_example:
  "read_eeprom fresh_driver example_sensor =
     (ms5805_status_ok, loaded_driver,
      example_sensor\<lparr>trace :=
         [Transmit 0xA0, RequestFrom 2, Transmit 0xA2, RequestFrom 2, Transmit 0xA4, RequestFrom 2,
          Transmit 0xA6, RequestFrom 2, Transmit 0xA8, RequestFrom 2, Transmit 0xAA, RequestFrom 2,
          Transmit 0xAC, RequestFrom 2], rx_buffer := []\<rparr>)"
proof -
  have c: "ucast (drop_bit 12 (example_prom ! MS5805_CRC_INDEX AND 0xF000)) = (8 :: u8)"
    by (simp add: example_prom_def MS5805_CRC_INDEX_def)
  have e: "eeprom_coeff fresh_driver = [0, 0, 0, 0, 0, 0, 0, 0]"
    by (simp add: fresh_driver_def)
  show ?thesis
    unfolding read_eeprom_def e read_eeprom_loop_example prod.case c crc_check_example
    by (simp add: fresh_driver_def loaded_driver_def)
qed

lemma prom_read_ops_all:
  "prom_read_ops 0 7 =
     [Transmit 0xA0, RequestFrom 2, Transmit 0xA2, RequestFrom 2, Transmit 0xA4, RequestFrom 2,
      Transmit 0xA6, RequestFrom 2, Transmit 0xA8, RequestFrom 2, Transmit 0xAA, RequestFrom 2,
      Transmit 0xAC, RequestFrom 2]"
proof -
  have "[0..<7] = [0, 1, 2, 3, 4, 5, 6 :: nat]" by code_simp
  then show ?thesis
    by (simp add: prom_read_ops_def MS5805_PROM_ADDRESS_READ_ADDRESS_0_def)
qed




lemma read_temperature_and_pressure_trace:
  "\<exists>ops. trace (snd (snd (read_temperature_and_pressure status_t status_p d w))) =
            trace (snd (snd (load_coefficients d w))) @ ops"
  unfolding read_temperature_and_pressure_def
  by (cases "load_coefficients d w") (simp add: conversion_and_read_adc_eq)

lemma read_eeprom_trace:
  assumes "length (eeprom_coeff d) = 8"
  shows "\<exists>ops. trace (snd (snd (read_eeprom d w))) =
           trace w @ [Transmit MS5805_PROM_ADDRESS_READ_ADDRESS_0, RequestFrom 2] @ ops"
proof -
  obtain s c' w' where l: "read_eeprom_loop 0 (eeprom_coeff d) w = (s, c', w')"
    by (cases "read_eeprom_loop 0 (eeprom_coeff d) w")
  from read_eeprom_loop_inv [OF l _ assms]
  obtain k where k: "trace w' = trace w @ prom_read_ops 0 k" "0 < k \<or> k = 7"
    by auto
  then have "0 < k" by auto
  from prom_read_ops_Suc [OF this] k(1)
  have "trace w' = trace w @ [Transmit MS5805_PROM_ADDRESS_READ_ADDRESS_0, RequestFrom 2] @
          prom_read_ops (Suc 0) k"
    by (simp add: prom_read_ops_one)
  moreover have "trace (snd (snd (read_eeprom d w))) = trace w'"
    unfolding read_eeprom_def l by (simp split: prod.splits)
  ultimately show ?thesis by auto
qed

lemma read_after_load:
  assumes "load_coefficients d w = (status, d1, w1)"
  shows "(\<exists>ops. trace (snd (snd (read_temperature_and_pressure status_t status_p d w))) =
            trace w1 @ ops) \<and>
         (if status \<noteq> ms5805_status_ok
          then read_temperature_and_pressure status_t status_p d w = (Inl status, d1, w1)
          else fst (snd (read_temperature_and_pressure status_t status_p d w)) = d1 \<and>
               (case fst (read_temperature_and_pressure status_t status_p d w) of
                  Inl e \<Rightarrow> True
                | Inr x \<Rightarrow> \<exists>t p. x = compensate (eeprom_coeff d1) t p))"
  unfolding read_temperature_and_pressure_def assms prod.case
  by (auto simp add: conversion_and_read_adc_eq)

text \<open>
  C7. When all words have been fetched and the CRC check of them fails, \<open>read_eeprom\<close>
  returns \<open>ms5805_status_crc_error\<close> and \<open>coeff_read\<close> stays false, and
  \<open>read_temperature_and_pressure\<close> returns \<open>ms5805_status_crc_error\<close> right after the
  load, with no reading and no conversion. The next \<open>read_temperature_and_pressure\<close>, on
  any bus, calls \<open>read_eeprom\<close> again: its bus trace starts with the read of the word at
  address \<open>0xA0\<close> and contains the whole trace of that \<open>read_eeprom\<close>; when that load
  fails it returns the load's status with no reading, and a reading it returns is computed
  from the table that load left validated.
\<close>

theorem crc_mismatch_not_cached:
  assumes "coeff_read d = False" and "length (eeprom_coeff d) = 8"
    and "read_eeprom_loop 0 (eeprom_coeff d) w = (ms5805_status_ok, coeffs, w')"
    and "\<not> fst (crc_check coeffs (ucast (drop_bit 12 (coeffs ! MS5805_CRC_INDEX AND 0xF000))))"
  shows "\<exists>d'. read_eeprom d w = (ms5805_status_crc_error, d', w') \<and> coeff_read d' = False \<and>
           (\<forall>status_t status_p.
              read_temperature_and_pressure status_t status_p d w =
                (Inl ms5805_status_crc_error, d', w')) \<and>
           (\<forall>status_t status_p w2.
              load_coefficients d' w2 = read_eeprom d' w2 \<and>
              (\<exists>ops. trace (snd (snd (read_temperature_and_pressure status_t status_p d' w2))) =
                 trace w2 @ [Transmit MS5805_PROM_ADDRESS_READ_ADDRESS_0, RequestFrom 2] @ ops) \<and>
              (case read_eeprom d' w2 of
                 (status, d2, w3) \<Rightarrow>
                   (\<exists>ops. trace (snd (snd (read_temperature_and_pressure status_t status_p
                                               d' w2))) = trace w3 @ ops) \<and>
                   (if status \<noteq> ms5805_status_ok
                    then read_temperature_and_pressure status_t status_p d' w2 =
                           (Inl status, d2, w3)
                    else coeff_read d2 \<and>
                         fst (snd (read_temperature_and_pressure status_t status_p d' w2)) = d2 \<and>
                         (case fst (read_temperature_and_pressure status_t status_p d' w2) of
                            Inl e \<Rightarrow> True
                          | Inr x \<Rightarrow> \<exists>t p. x = compensate (eeprom_coeff d2) t p))))"
proof -
  let ?crc = "ucast (drop_bit 12 (coeffs ! MS5805_CRC_INDEX AND 0xF000)) :: u8"
  let ?d' = "d\<lparr>eeprom_coeff := snd (crc_check coeffs ?crc)\<rparr>"
  obtain crc_ok arr where cc: "crc_check coeffs ?crc = (crc_ok, arr)"
    by (cases "crc_check coeffs ?crc")
  with assms(4) have "\<not> crc_ok" by simp
  then have r: "read_eeprom d w = (ms5805_status_crc_error, ?d', w')"
    unfolding read_eeprom_def assms(3) prod.case cc by simp
  have c: "coeff_read ?d' = False" using assms(1) by simp
  have "load_coefficients d w = (ms5805_status_crc_error, ?d', w')"
    using assms(1) r by (simp add: load_coefficients_def)
  from read_after_load [OF this]
  have first: "read_temperature_and_pressure status_t status_p d w =
                 (Inl ms5805_status_crc_error, ?d', w')" for status_t status_p
    by simp
  have "length coeffs = 8"
    using read_eeprom_loop_inv [OF assms(3) _ assms(2)] by auto
  then have len: "length (eeprom_coeff ?d') = 8"
    by (simp add: crc_check_array)
  have n: "load_coefficients ?d' w2 = read_eeprom ?d' w2" for w2
    using c by (simp add: load_coefficients_def)
  have start: "\<exists>ops. trace (snd (snd (read_temperature_and_pressure status_t status_p ?d' w2))) =
                 trace w2 @ [Transmit MS5805_PROM_ADDRESS_READ_ADDRESS_0, RequestFrom 2] @ ops"
    for status_t status_p w2
  proof -
    obtain ops1 where
      "trace (snd (snd (read_temperature_and_pressure status_t status_p ?d' w2))) =
         trace (snd (snd (read_eeprom ?d' w2))) @ ops1"
      using read_temperature_and_pressure_trace [of status_t status_p ?d' w2] n [of w2]
      by auto
    moreover obtain ops2 where "trace (snd (snd (read_eeprom ?d' w2))) =
        trace w2 @ [Transmit MS5805_PROM_ADDRESS_READ_ADDRESS_0, RequestFrom 2] @ ops2"
      using read_eeprom_trace [OF len, of w2] by auto
    ultimately show ?thesis by simp
  qed
  have whole: "case read_eeprom ?d' w2 of
                 (status, d2, w3) \<Rightarrow>
                   (\<exists>ops. trace (snd (snd (read_temperature_and_pressure status_t status_p
                                               ?d' w2))) = trace w3 @ ops) \<and>
                   (if status \<noteq> ms5805_status_ok
                    then read_temperature_and_pressure status_t status_p ?d' w2 =
                           (Inl status, d2, w3)
                    else coeff_read d2 \<and>
                         fst (snd (read_temperature_and_pressure status_t status_p ?d' w2)) = d2 \<and>
                         (case fst (read_temperature_and_pressure status_t status_p ?d' w2) of
                            Inl e \<Rightarrow> True
                          | Inr x \<Rightarrow> \<exists>t p. x = compensate (eeprom_coeff d2) t p))"
    for status_t status_p w2
  proof -
    obtain status d2 w3 where e: "read_eeprom ?d' w2 = (status, d2, w3)"
      by (cases "read_eeprom ?d' w2")
    then have l: "load_coefficients ?d' w2 = (status, d2, w3)" using n [of w2] by simp
    have v: "status = ms5805_status_ok \<Longrightarrow> coeff_read d2"
      using e by (auto intro: read_eeprom_ok_validated)
    from read_after_load [OF l, of status_t status_p] v show ?thesis
      unfolding e prod.case by (auto split: if_splits)
  qed
  show ?thesis
    by (intro exI [of _ ?d'] conjI allI r c first n start whole)
qed

lemma read_eeprom_loop_corrupt:
  "read_eeprom_loop 0 [0, 0, 0, 0, 0, 0, 0, 0] corrupt_sensor =
     (ms5805_status_ok, corrupt_prom, corrupt_sensor\<lparr>trace := prom_read_ops 0 7, rx_buffer := []\<rparr>)"
  by (simp add: read_eeprom_loop_numeral read_eeprom_loop_done corrupt_sensor_def sensor_def
      sensor_rx_def received_word_def byte_or_ff_def corrupt_prom_def prom_read_ops_all)

lemma crc_check_corrupt: "\<not> fst (crc_check corrupt_prom 1)"
  unfolding crc_check_def Let_def corrupt_prom_def by (simp add: crc_eval)

theorem crc_mismatch_not_cached_witness:
  "coeff_read fresh_driver = False \<and> length (eeprom_coeff fresh_driver) = 8 \<and>
   fst (read_eeprom fresh_driver corrupt_sensor) = ms5805_status_crc_error \<and>
   coeff_read (fst (snd (read_eeprom fresh_driver corrupt_sensor))) = False \<and>
   fst (read_temperature_and_pressure ms5805_status_ok ms5805_status_ok fresh_driver
          corrupt_sensor) = Inl ms5805_status_crc_error \<and>
   trace (snd (snd (read_temperature_and_pressure ms5805_status_ok ms5805_status_ok
                      fresh_driver corrupt_sensor))) = prom_read_ops 0 7 \<and>
   (\<exists>ops. trace (snd (snd (read_temperature_and_pressure ms5805_status_ok ms5805_status_ok
              (fst (snd (read_eeprom fresh_driver corrupt_sensor))) example_sensor))) =
           trace example_sensor @ [Transmit MS5805_PROM_ADDRESS_READ_ADDRESS_0, RequestFrom 2] @ ops)"
proof -
  have a: "coeff_read fresh_driver = False" "length (eeprom_coeff fresh_driver) = 8"
    by (simp_all add: fresh_driver_def)
  have l: "read_eeprom_loop 0 (eeprom_coeff fresh_driver) corrupt_sensor =
     (ms5805_status_ok, corrupt_prom, corrupt_sensor\<lparr>trace := prom_read_ops 0 7, rx_buffer := []\<rparr>)"
    using read_eeprom_loop_corrupt by (simp add: fresh_driver_def)
  have h: "ucast (drop_bit 12 (corrupt_prom ! MS5805_CRC_INDEX AND 0xF000)) = (1 :: u8)"
    by (simp add: corrupt_prom_def MS5805_CRC_INDEX_def)
  have c: "\<not> fst (crc_check corrupt_prom
                    (ucast (drop_bit 12 (corrupt_prom ! MS5805_CRC_INDEX AND 0xF000))))"
    unfolding h by (rule crc_check_corrupt)
  from crc_mismatch_not_cached [OF a l c]
  obtain d' where d:
    "read_eeprom fresh_driver corrupt_sensor =
       (ms5805_status_crc_error, d',
        corrupt_sensor\<lparr>trace := prom_read_ops 0 7, rx_buffer := []\<rparr>)"
    "coeff_read d' = False"
    "\<And>status_t status_p.
       read_temperature_and_pressure status_t status_p fresh_driver corrupt_sensor =
         (Inl ms5805_status_crc_error, d',
          corrupt_sensor\<lparr>trace := prom_read_ops 0 7, rx_buffer := []\<rparr>)"
    "\<And>status_t status_p w2.
       \<exists>ops. trace (snd (snd (read_temperature_and_pressure status_t status_p d' w2))) =
         trace w2 @ [Transmit MS5805_PROM_ADDRESS_READ_ADDRESS_0, RequestFrom 2] @ ops"
    by blast
  from d(4) [of ms5805_status_ok ms5805_status_ok example_sensor] a d(1,2)
    d(3) [of ms5805_status_ok ms5805_status_ok]
  show ?thesis by simp
qed

text \<open>
  C5: the code at the failing input. The address-select write ends with a timeout (status
  4) and no byte arrives: \<open>read_eeprom_coeff\<close> stores \<open>0xFFFF\<close> and returns
  \<open>ms5805_status_ok\<close>, where \<open>write_command\<close> on the same bus returns
  \<open>ms5805_status_i2c_transfer_error\<close>.
\<close>

theorem read_eeprom_coeff_timeout_is_ok:
  "fst (read_eeprom_coeff 0xA0 timeout_wire) = Inr 0xFFFF \<and>
   status_of (fst (read_eeprom_coeff 0xA0 timeout_wire)) = ms5805_status_ok \<and>
   fst (write_command 0xA0 timeout_wire) = ms5805_status_i2c_transfer_error"
  by (simp add: read_eeprom_coeff_eq write_command_def Wire_transmit_def timeout_wire_def
      received_word_def byte_or_ff_def ms5805_constants)

text \<open>
  The status of the conversion-start write is never examined: whatever it is, the result
  of \<open>conversion_and_read_adc\<close> is the same.
\<close>

lemma conversion_start_status_ignored:
  "fst (conversion_and_read_adc status cmd (with_end_status (trace w @ [Transmit cmd]) s w)) =
   fst (conversion_and_read_adc status cmd w)"
  by (simp add: conversion_and_read_adc_eq with_end_status_def conversion_ops_def
      received_adc_def)

text \<open>
  C10: the code at the failing input. On a bus where every transmission is acknowledged,
  \<open>conversion_and_read_adc\<close> returns whatever the uninitialised local \<open>status\<close> holds
  when that is not \<open>ms5805_status_ok\<close>.
\<close>

theorem conversion_and_read_adc_uninitialised_status:
  "end_status example_sensor = (\<lambda>t. ms5805_STATUS_OK) \<and>
   fst (conversion_and_read_adc ms5805_status_crc_error 0x5A example_sensor) =
     Inl ms5805_status_crc_error \<and>
   fst (conversion_and_read_adc ms5805_status_ok 0x5A example_sensor) = Inr 8077636"
  by (simp add: conversion_and_read_adc_eq conversion_ops_def received_adc_def byte_or_ff_def
      example_sensor_def sensor_def sensor_rx_def ms5805_constants conversion_time_def)

lemma compensate_example:
  "compensate example_prom 8077636 6465444 = \<lparr>temperature_x100 = 2000, pressure_x100 = 110002\<rparr>"
  unfolding example_prom_def by code_simp

lemma loaded_driver_cmds:
  "temperature_cmd loaded_driver = 0x5A" "pressure_cmd loaded_driver = 0x4A"
  by (simp_all add: temperature_cmd_def pressure_cmd_def loaded_driver_def ms5805_constants)

lemmas sensor_eval =
  conversion_and_read_adc_eq conversion_ops_def received_adc_def byte_or_ff_def
  sensor_def sensor_rx_def ms5805_constants conversion_time_def loaded_driver_cmds

lemma read_example:
  "read_temperature_and_pressure ms5805_status_ok ms5805_status_ok loaded_driver
     (example_sensor\<lparr>trace := prom_read_ops 0 7, rx_buffer := []\<rparr>) =
   (Inr \<lparr>temperature_x100 = 2000, pressure_x100 = 110002\<rparr>, loaded_driver,
    example_sensor\<lparr>trace := prom_read_ops 0 7 @
       [Transmit 0x5A, Delay 17, Transmit 0, RequestFrom 3,
        Transmit 0x4A, Delay 17, Transmit 0, RequestFrom 3], rx_buffer := []\<rparr>)"
proof -
  have "coeff_read loaded_driver" "eeprom_coeff loaded_driver = example_prom"
    by (simp_all add: loaded_driver_def)
  then show ?thesis
    unfolding read_temperature_and_pressure_def load_coefficients_def
    by (simp add: sensor_eval example_sensor_def prom_read_ops_all compensate_example)
qed

theorem cached_coefficients_skip_fetch_witness:
  "read_eeprom fresh_driver example_sensor =
     (ms5805_status_ok, loaded_driver,
      example_sensor\<lparr>trace := prom_read_ops 0 7, rx_buffer := []\<rparr>) \<and>
   coeff_read loaded_driver \<and>
   fst (read_temperature_and_pressure ms5805_status_ok ms5805_status_ok loaded_driver
          (example_sensor\<lparr>trace := prom_read_ops 0 7, rx_buffer := []\<rparr>)) =
     Inr \<lparr>temperature_x100 = 2000, pressure_x100 = 110002\<rparr> \<and>
   trace (snd (snd (read_temperature_and_pressure ms5805_status_ok ms5805_status_ok loaded_driver
          (example_sensor\<lparr>trace := prom_read_ops 0 7, rx_buffer := []\<rparr>)))) =
     prom_read_ops 0 7 @ conversion_ops (temperature_cmd loaded_driver) @
       conversion_ops (pressure_cmd loaded_driver)"
proof -
  have r: "read_eeprom fresh_driver example_sensor =
     (ms5805_status_ok, loaded_driver,
      example_sensor\<lparr>trace := prom_read_ops 0 7, rx_buffer := []\<rparr>)"
    by (simp add: read_eeprom_example prom_read_ops_all)
  from cached_coefficients_skip_fetch [OF r,
      where w = "example_sensor\<lparr>trace := prom_read_ops 0 7, rx_buffer := []\<rparr>"
        and status_t = ms5805_status_ok and status_p = ms5805_status_ok]
  have c: "coeff_read loaded_driver" by (rule conjunct1)
  have o: "conversion_ops (temperature_cmd loaded_driver) @
             conversion_ops (pressure_cmd loaded_driver) =
           [Transmit 0x5A, Delay 17, Transmit 0, RequestFrom 3,
            Transmit 0x4A, Delay 17, Transmit 0, RequestFrom 3]"
    by (simp add: conversion_ops_def loaded_driver_cmds ms5805_constants conversion_time_def)
  from c show ?thesis
    unfolding o by (simp add: r read_example)
qed

theorem zero_adc_is_transfer_error_witness:
  "end_status zero_sensor = (\<lambda>t. ms5805_STATUS_OK) \<and>
   fst (conversion_and_read_adc ms5805_status_ok (temperature_cmd loaded_driver) zero_sensor) =
     Inr 0 \<and>
   fst (read_temperature_and_pressure ms5805_status_ok ms5805_status_ok loaded_driver zero_sensor) =
     Inl ms5805_status_i2c_transfer_error"
proof -
  let ?w2 = "snd (conversion_and_read_adc ms5805_status_ok (temperature_cmd loaded_driver)
                    zero_sensor)"
  let ?w3 = "snd (conversion_and_read_adc ms5805_status_ok (pressure_cmd loaded_driver) ?w2)"
  have l: "load_coefficients loaded_driver zero_sensor =
             (ms5805_status_ok, loaded_driver, zero_sensor)"
    by (simp add: load_coefficients_def loaded_driver_def)
  have ft: "fst (conversion_and_read_adc ms5805_status_ok (temperature_cmd loaded_driver)
                   zero_sensor) = Inr 0"
    by (simp add: sensor_eval zero_sensor_def)
  then have t: "conversion_and_read_adc ms5805_status_ok (temperature_cmd loaded_driver)
                  zero_sensor = (Inr 0, ?w2)"
    by (metis prod.collapse)
  have "fst (conversion_and_read_adc ms5805_status_ok (pressure_cmd loaded_driver) ?w2) =
          Inr 6465444"
    by (simp add: sensor_eval zero_sensor_def)
  then have p: "conversion_and_read_adc ms5805_status_ok (pressure_cmd loaded_driver) ?w2 =
                  (Inr 6465444, ?w3)"
    by (metis prod.collapse)
  have z: "(0 :: u32) = 0 \<or> (6465444 :: u32) = 0" by simp
  have e: "end_status zero_sensor = (\<lambda>t. ms5805_STATUS_OK)"
    by (simp add: zero_sensor_def sensor_def ms5805_constants)
  from zero_adc_is_transfer_error [OF l t p z] ft e show ?thesis by simp
qed

section \<open>The compensation computes the exact integers\<close>

lemma sint64_add:
  "- (2 ^ 63) \<le> sint a + sint b \<Longrightarrow> sint a + sint b < 2 ^ 63 \<Longrightarrow>
   sint (a + b :: i64) = sint a + sint b"
  by (simp add: sint_word_ariths signed_take_bit_int_eq_self)

lemma sint64_diff:
  "- (2 ^ 63) \<le> sint a - sint b \<Longrightarrow> sint a - sint b < 2 ^ 63 \<Longrightarrow>
   sint (a - b :: i64) = sint a - sint b"
  by (simp add: sint_word_ariths signed_take_bit_int_eq_self)

lemma sint64_mult:
  "- (2 ^ 63) \<le> sint a * sint b \<Longrightarrow> sint a * sint b < 2 ^ 63 \<Longrightarrow>
   sint (a * b :: i64) = sint a * sint b"
  by (simp add: sint_word_ariths signed_take_bit_int_eq_self)

lemma sint32_diff:
  "- (2 ^ 31) \<le> sint a - sint b \<Longrightarrow> sint a - sint b < 2 ^ 31 \<Longrightarrow>
   sint (a - b :: i32) = sint a - sint b"
  by (simp add: sint_word_ariths signed_take_bit_int_eq_self)

lemma sint64_scast32: "sint (scast (x :: i32) :: i64) = sint x"
  by (simp add: sint_up_scast is_up)

lemma signed_take_bit_uint:
  assumes "uint x < 2 ^ n"
  shows "signed_take_bit n (uint x) = uint x"
proof (rule signed_take_bit_int_eq_self)
  have "- (2 ^ n) \<le> (0 :: int)" by simp
  also have "0 \<le> uint x" by simp
  finally show "- (2 ^ n) \<le> uint x" .
  show "uint x < 2 ^ n" by (rule assms)
qed

lemma uint16_less:
  fixes x :: u16
  shows "uint x < 2 ^ 16" "uint x < 2 ^ 31" "uint x < 2 ^ 63" "uint x \<le> 65535"
proof -
  show a: "uint x < 2 ^ 16" using uint_bounded [of x] by simp
  from a show "uint x < 2 ^ 31" by simp
  from a show "uint x < 2 ^ 63" by simp
  from a show "uint x \<le> 65535" by simp
qed

lemma sint64_ucast16: "sint (ucast (x :: u16) :: i64) = uint x"
  using signed_take_bit_uint [OF uint16_less(3), of x] by (simp add: signed_ucast_eq)

lemma sint64_ucast32: "sint (ucast (x :: u32) :: i64) = uint x"
proof -
  have "uint x < 2 ^ 32" using uint_bounded [of x] by simp
  then have "uint x < 2 ^ 63" by simp
  from signed_take_bit_uint [OF this] show ?thesis
    by (simp add: signed_ucast_eq)
qed

lemma sint32_ucast16: "sint (ucast (x :: u16) :: i32) = uint x"
  using signed_take_bit_uint [OF uint16_less(2), of x] by (simp add: signed_ucast_eq)

lemma sint32_small: "uint (x :: u32) < 2 ^ 31 \<Longrightarrow> sint x = uint x"
  using signed_take_bit_uint [of x 31] by (simp add: sint_uint)

lemma sint32_narrow:
  "- (2 ^ 31) \<le> sint x \<Longrightarrow> sint x < 2 ^ 31 \<Longrightarrow> sint (ucast (x :: i64) :: i32) = sint x"
proof -
  assume a: "- (2 ^ 31) \<le> sint x" "sint x < 2 ^ 31"
  have "(ucast x :: i32) = scast x"
    by (simp add: down_cast_same is_down)
  then show ?thesis using a
    by (simp add: signed_scast_eq signed_take_bit_int_eq_self)
qed

lemma sint64_push_bit:
  assumes "- (2 ^ 63) \<le> sint a * 2 ^ n" "sint a * 2 ^ n < 2 ^ 63"
  shows "sint (push_bit n a :: i64) = sint a * 2 ^ n"
  unfolding signed_push_bit_eq
  using assms by (simp add: push_bit_eq_mult signed_take_bit_int_eq_self)

lemma sdiv_nonneg: "0 \<le> k \<Longrightarrow> k sdiv 16 = k div (16 :: int)"
  by (cases "k = 0") (simp_all add: signed_divide_int_def)

lemma sint64_sdiv16:
  assumes "0 \<le> sint a"
  shows "sint (sdiv64 a 16) = sint a div 16"
proof -
  have s: "sint (16 :: i64) = 16" by simp
  have d: "sint a sdiv 16 = sint a div 16"
    using assms by (rule sdiv_nonneg)
  have "0 \<le> sint a div 16" using assms by simp
  moreover have "sint a div 16 \<le> sint a div 1"
    using assms by (intro zdiv_mono2) simp_all
  moreover have "sint a < 2 ^ 63" using sint_lt [of a] by simp
  ultimately have "- (2 ^ 63) \<le> sint a div 16" "sint a div 16 < 2 ^ 63"
    by simp_all
  then show ?thesis
    unfolding sdiv64_def s d
    by (simp add: sint_sbintrunc' signed_take_bit_int_eq_self)
qed

lemma sint64_signed_drop_bit: "sint (signed_drop_bit n (a :: i64)) = sint a div 2 ^ n"
  by (simp add: sint_signed_drop_bit_eq drop_bit_eq_div)

lemma int_mult_abs_bound:
  fixes a b :: int
  assumes "\<bar>a\<bar> \<le> A" "\<bar>b\<bar> \<le> B"
  shows "\<bar>a * b\<bar> \<le> A * B"
proof -
  have "\<bar>a * b\<bar> = \<bar>a\<bar> * \<bar>b\<bar>" by (rule abs_mult)
  also have "\<dots> \<le> A * B" using assms by (intro mult_mono) auto
  finally show ?thesis .
qed

lemma sint32_push_bit:
  assumes "- (2 ^ 31) \<le> sint a * 2 ^ n" "sint a * 2 ^ n < 2 ^ 31"
  shows "sint (push_bit n a :: i32) = sint a * 2 ^ n"
  unfolding signed_push_bit_eq
  using assms by (simp add: push_bit_eq_mult signed_take_bit_int_eq_self)

lemma sint32_diff_val:
  assumes "sint a = x" "sint b = y" "- (2 ^ 31) \<le> x - y" "x - y < 2 ^ 31"
  shows "sint (a - b :: i32) = x - y"
  using assms by (simp add: sint32_diff)

lemma sint32_push_bit_val:
  assumes "sint a = x" "- (2 ^ 31) \<le> x * 2 ^ n" "x * 2 ^ n < 2 ^ 31"
  shows "sint (push_bit n a :: i32) = x * 2 ^ n"
  using assms by (simp add: sint32_push_bit)

lemma compute_dT_sint:
  assumes "uint adc_temperature < 2 ^ 24"
  shows "sint (compute_dT coeff adc_temperature) =
           uint adc_temperature - uint (coeff ! 5) * 2 ^ 8"
    and "\<bar>sint (compute_dT coeff adc_temperature)\<bar> \<le> 2 ^ 24"
proof -
  define c where "c = uint (coeff ! 5)"
  define r where "r = uint adc_temperature"
  have c: "0 \<le> c" "c \<le> 65535" by (simp_all add: c_def uint16_less)
  have r: "0 \<le> r" "r < 16777216" using assms by (simp_all add: r_def)
  have a: "sint adc_temperature = r"
    using assms by (simp add: sint32_small r_def)
  have "sint (ucast (coeff ! 5) :: i32) = c" by (simp add: sint32_ucast16 c_def)
  then have p: "sint (push_bit 8 (ucast (coeff ! 5)) :: i32) = c * 2 ^ 8"
    by (rule sint32_push_bit_val) (use c in simp_all)
  have "sint (adc_temperature - push_bit 8 (ucast (coeff ! 5)) :: i32) = r - c * 2 ^ 8"
    using a p by (rule sint32_diff_val) (use c r in simp_all)
  then show e: "sint (compute_dT coeff adc_temperature) =
           uint adc_temperature - uint (coeff ! 5) * 2 ^ 8"
    by (simp add: compute_dT_def MS5805_REFERENCE_TEMPERATURE_INDEX_def c_def r_def)
  show "\<bar>sint (compute_dT coeff adc_temperature)\<bar> \<le> 2 ^ 24"
    unfolding e c_def [symmetric] r_def [symmetric] using c r by simp
qed

lemma div_bounds:
  fixes x :: int
  assumes "\<bar>x\<bar> \<le> M" "0 < d"
  shows "- M div d \<le> x div d" "x div d \<le> M div d"
proof -
  from assms have "- M \<le> x" "x \<le> M" by simp_all
  then show "- M div d \<le> x div d" "x div d \<le> M div d"
    using assms(2) by (simp_all add: zdiv_mono1)
qed

lemma compute_TEMP_sint:
  assumes "\<bar>sint dT\<bar> \<le> 2 ^ 24"
  shows "sint (compute_TEMP coeff dT) = 2000 + sint dT * uint (coeff ! 6) div 2 ^ 23"
    and "\<bar>sint (compute_TEMP coeff dT) - 2000\<bar> \<le> 131070"
proof -
  let ?c = "coeff ! 6"
  have c: "\<bar>uint ?c\<bar> \<le> 65535" by (simp add: uint16_less)
  from int_mult_abs_bound [OF assms c]
  have m: "\<bar>sint dT * uint ?c\<bar> \<le> 1099494850560" by simp
  have p: "sint ((scast dT :: i64) * ucast ?c) = sint dT * uint ?c"
    using m by (simp add: sint64_mult sint64_scast32 sint64_ucast16)
  from div_bounds [OF m, of "2 ^ 23"]
  have d: "- 131070 \<le> sint dT * uint ?c div 2 ^ 23" "sint dT * uint ?c div 2 ^ 23 \<le> 131070"
    by simp_all
  have s: "sint (2000 + signed_drop_bit 23 ((scast dT :: i64) * ucast ?c)) =
             2000 + sint dT * uint ?c div 2 ^ 23"
    using d by (simp add: sint64_add sint64_signed_drop_bit p)
  show e: "sint (compute_TEMP coeff dT) = 2000 + sint dT * uint (coeff ! 6) div 2 ^ 23"
    unfolding compute_TEMP_def MS5805_TEMP_COEFF_OF_TEMPERATURE_INDEX_def
    using d by (simp add: sint32_narrow s)
  show "\<bar>sint (compute_TEMP coeff dT) - 2000\<bar> \<le> 131070"
    unfolding e using d by simp
qed

lemma sint64_mult_val:
  assumes "sint a = x" "sint b = y" "\<bar>x\<bar> \<le> A" "\<bar>y\<bar> \<le> B" "A * B < 2 ^ 63"
  shows "sint (a * b :: i64) = x * y" and "\<bar>x * y\<bar> \<le> A * B"
proof -
  show m: "\<bar>x * y\<bar> \<le> A * B" using assms(3,4) by (rule int_mult_abs_bound)
  with assms(5) have "- (2 ^ 63) \<le> x * y" "x * y < 2 ^ 63" by simp_all
  with assms(1,2) show "sint (a * b :: i64) = x * y" by (simp add: sint64_mult)
qed

lemma sint64_add_val:
  assumes "sint a = x" "sint b = y" "- (2 ^ 63) \<le> x + y" "x + y < 2 ^ 63"
  shows "sint (a + b :: i64) = x + y"
  using assms by (simp add: sint64_add)

lemma sint64_diff_val:
  assumes "sint a = x" "sint b = y" "- (2 ^ 63) \<le> x - y" "x - y < 2 ^ 63"
  shows "sint (a - b :: i64) = x - y"
  using assms by (simp add: sint64_diff)

lemma sint64_push_bit_val:
  assumes "sint a = x" "- (2 ^ 63) \<le> x * 2 ^ n" "x * 2 ^ n < 2 ^ 63"
  shows "sint (push_bit n a :: i64) = x * 2 ^ n"
  using assms by (simp add: sint64_push_bit)

lemma sint64_sdiv16_val:
  assumes "sint a = x" "0 \<le> x"
  shows "sint (sdiv64 a 16) = x div 16"
  using assms by (simp add: sint64_sdiv16)

lemma sint64_shift_val:
  assumes "sint a = x"
  shows "sint (signed_drop_bit n (a :: i64)) = x div 2 ^ n"
  using assms by (simp add: sint64_signed_drop_bit)

text \<open>The square terms of the second order compensation, on words.\<close>

lemma square_term:
  assumes "sint a = x" "\<bar>x\<bar> \<le> 134570" "0 \<le> k" "k \<le> 61" "sint c = k"
  shows "sint (c * a * a :: i64) = k * x\<^sup>2" and "0 \<le> k * x\<^sup>2"
    and "k * x\<^sup>2 \<le> k * 18109084900"
proof -
  have k: "\<bar>k\<bar> \<le> 61" using assms(3,4) by simp
  from sint64_mult_val [OF assms(5,1) k assms(2)]
  have m: "sint (c * a) = k * x" "\<bar>k * x\<bar> \<le> 61 * 134570" by simp_all
  from sint64_mult_val [OF m(1) assms(1) m(2) assms(2)]
  have "sint (c * a * a) = k * x * x" by simp
  then show "sint (c * a * a :: i64) = k * x\<^sup>2"
    by (simp add: power2_eq_square mult.assoc)
  show "0 \<le> k * x\<^sup>2" using assms(3) by simp
  have "x\<^sup>2 = \<bar>x\<bar> * \<bar>x\<bar>" by (simp add: power2_eq_square)
  also have "\<dots> \<le> 134570 * 134570" using assms(2) by (intro mult_mono) simp_all
  finally have "x\<^sup>2 \<le> 18109084900" by simp
  then show "k * x\<^sup>2 \<le> k * 18109084900" using assms(3) by (rule mult_left_mono)
qed

lemma spec_second_order_bounds:
  assumes "\<bar>t - 2000\<bar> \<le> 131070"
  shows "0 \<le> spec_OFF2 t" "spec_OFF2 t \<le> 373350695731"
    and "0 \<le> spec_SENS2 t" "spec_SENS2 t \<le> 194119326731"
proof -
  have "(t - 2000)\<^sup>2 = \<bar>t - 2000\<bar> * \<bar>t - 2000\<bar>" by (simp add: power2_eq_square)
  also have "\<dots> \<le> 131070 * 131070" using assms by (intro mult_mono) simp_all
  finally have a: "(t - 2000)\<^sup>2 \<le> 17179344900" by simp
  have a0: "0 \<le> (t - 2000)\<^sup>2" by simp
  from assms have "\<bar>t + 1500\<bar> \<le> 134570" by simp
  then have "\<bar>t + 1500\<bar> * \<bar>t + 1500\<bar> \<le> 134570 * 134570"
    by (intro mult_mono) simp_all
  then have b: "(t + 1500)\<^sup>2 \<le> 18109084900" by (simp add: power2_eq_square)
  have b0: "0 \<le> (t + 1500)\<^sup>2" by simp
  define p where "p = (t - 2000)\<^sup>2"
  define q where "q = (t + 1500)\<^sup>2"
  have p: "0 \<le> p" "p \<le> 17179344900" using a a0 by (simp_all add: p_def)
  have q: "0 \<le> q" "q \<le> 18109084900" using b b0 by (simp_all add: q_def)
  have d61: "0 \<le> 61 * p div 16" "61 * p div 16 \<le> 65496252431"
    using p by simp_all
  have d29: "0 \<le> 29 * p div 16" "29 * p div 16 \<le> 31137562631"
    using p by simp_all
  show "0 \<le> spec_OFF2 t" "spec_OFF2 t \<le> 373350695731"
    unfolding spec_OFF2_def p_def [symmetric] q_def [symmetric]
    using d61 q by simp_all
  show "0 \<le> spec_SENS2 t" "spec_SENS2 t \<le> 194119326731"
    unfolding spec_SENS2_def p_def [symmetric] q_def [symmetric]
    using d29 q by simp_all
qed

lemma second_order_sint:
  assumes "\<bar>sint dT\<bar> \<le> 2 ^ 24" "\<bar>sint TEMP - 2000\<bar> \<le> 131070"
    and "second_order dT TEMP = (T2, OFF2, SENS2)"
  shows "sint T2 = spec_T2 (sint dT) (sint TEMP)"
    and "sint OFF2 = spec_OFF2 (sint TEMP)"
    and "sint SENS2 = spec_SENS2 (sint TEMP)"
proof -
  define d where "d = sint dT"
  define t where "t = sint TEMP"
  have d: "\<bar>d\<bar> \<le> 16777216" using assms(1) by (simp add: d_def)
  have t: "\<bar>t - 2000\<bar> \<le> 131070" using assms(2) by (simp add: t_def)
  have sd: "sint (scast dT :: i64) = d" by (simp add: sint64_scast32 d_def)
  have st: "sint (scast TEMP :: i64) = t" by (simp add: sint64_scast32 t_def)
  have lt1: "(TEMP <s 2000) = (t < 2000)" by (simp add: word_sless_alt t_def)
  have lt2: "(TEMP <s - 1500) = (t < - 1500)" by (simp add: word_sless_alt t_def)
  \<comment> \<open>the products of \<open>dT\<close>\<close>
  from sint64_mult_val [OF sd sd d d]
  have dd: "sint (scast dT * scast dT :: i64) = d * d" "\<bar>d * d\<bar> \<le> 281474976710656"
    by simp_all
  have n3: "sint (3 :: i64) = 3" "\<bar>3 :: int\<bar> \<le> 3" by simp_all
  have n5: "sint (5 :: i64) = 5" "\<bar>5 :: int\<bar> \<le> 5" by simp_all
  from sint64_mult_val [OF n3(1) dd(1) n3(2) dd(2)]
  have "sint (3 * (scast dT * scast dT) :: i64) = 3 * (d * d)" by simp
  then have T2a: "sint (signed_drop_bit 33 (3 * (scast dT * scast dT) :: i64)) =
      drop_bit 33 (3 * d * d)"
    by (simp add: sint64_signed_drop_bit drop_bit_eq_div mult.assoc)
  from sint64_mult_val [OF n5(1) dd(1) n5(2) dd(2)]
  have "sint (5 * (scast dT * scast dT) :: i64) = 5 * (d * d)" by simp
  then have T2b: "sint (signed_drop_bit 38 (5 * (scast dT * scast dT) :: i64)) =
      drop_bit 38 (5 * d * d)"
    by (simp add: sint64_signed_drop_bit drop_bit_eq_div mult.assoc)
  \<comment> \<open>the squares of \<open>TEMP - 2000\<close> and \<open>TEMP + 1500\<close>\<close>
  have n2000: "sint (2000 :: i64) = 2000" by simp
  have n1500: "sint (1500 :: i64) = 1500" by simp
  have a: "sint (scast TEMP - 2000 :: i64) = t - 2000"
    using st n2000 by (rule sint64_diff_val) (use t in simp_all)
  have b: "sint (scast TEMP + 1500 :: i64) = t + 1500"
    using st n1500 by (rule sint64_add_val) (use t in simp_all)
  have ta: "\<bar>t - 2000\<bar> \<le> 134570" using t by simp
  have tb: "\<bar>t + 1500\<bar> \<le> 134570" using t by simp
  have k: "sint (61 :: i64) = 61" "sint (29 :: i64) = 29" "sint (17 :: i64) = 17"
    "sint (9 :: i64) = 9" by simp_all
  define p where "p = (t - 2000)\<^sup>2"
  define q where "q = (t + 1500)\<^sup>2"
  have s61: "sint (61 * (scast TEMP - 2000) * (scast TEMP - 2000) :: i64) = 61 * p"
    "0 \<le> 61 * p" "61 * p \<le> 61 * 18109084900"
    using square_term [OF a ta _ _ k(1)] by (simp_all add: p_def)
  have s29: "sint (29 * (scast TEMP - 2000) * (scast TEMP - 2000) :: i64) = 29 * p"
    "0 \<le> 29 * p" "29 * p \<le> 29 * 18109084900"
    using square_term [OF a ta _ _ k(2)] by (simp_all add: p_def)
  have s17: "sint (17 * (scast TEMP + 1500) * (scast TEMP + 1500) :: i64) = 17 * q"
    "0 \<le> 17 * q" "17 * q \<le> 17 * 18109084900"
    using square_term [OF b tb _ _ k(3)] by (simp_all add: q_def)
  have s9: "sint (9 * (scast TEMP + 1500) * (scast TEMP + 1500) :: i64) = 9 * q"
    "0 \<le> 9 * q" "9 * q \<le> 9 * 18109084900"
    using square_term [OF b tb _ _ k(4)] by (simp_all add: q_def)
  have o1: "sint (sdiv64 (61 * (scast TEMP - 2000) * (scast TEMP - 2000)) 16) = 61 * p div 16"
    using s61(1,2) by (rule sint64_sdiv16_val)
  have e1: "sint (sdiv64 (29 * (scast TEMP - 2000) * (scast TEMP - 2000)) 16) = 29 * p div 16"
    using s29(1,2) by (rule sint64_sdiv16_val)
  have o1b: "0 \<le> 61 * p div 16" "61 * p div 16 \<le> 61 * 18109084900"
    using s61(2,3) by simp_all
  have e1b: "0 \<le> 29 * p div 16" "29 * p div 16 \<le> 29 * 18109084900"
    using s29(2,3) by simp_all
  have o2: "sint (sdiv64 (61 * (scast TEMP - 2000) * (scast TEMP - 2000)) 16 +
                  17 * (scast TEMP + 1500) * (scast TEMP + 1500)) = 61 * p div 16 + 17 * q"
    using o1 s17(1) by (rule sint64_add_val) (use o1b s17 in simp_all)
  have e2: "sint (sdiv64 (29 * (scast TEMP - 2000) * (scast TEMP - 2000)) 16 +
                  9 * (scast TEMP + 1500) * (scast TEMP + 1500)) = 29 * p div 16 + 9 * q"
    using e1 s9(1) by (rule sint64_add_val) (use e1b s9 in simp_all)
  show "sint T2 = spec_T2 (sint dT) (sint TEMP)"
    using assms(3) T2a T2b
    by (auto simp add: second_order_def Let_def spec_T2_def lt1 lt2 d_def t_def
        split: if_splits)
  show "sint OFF2 = spec_OFF2 (sint TEMP)"
    using assms(3) o1 o2
    by (auto simp add: second_order_def Let_def spec_OFF2_def lt1 lt2 t_def p_def q_def
        split: if_splits)
  show "sint SENS2 = spec_SENS2 (sint TEMP)"
    using assms(3) e1 e2
    by (auto simp add: second_order_def Let_def spec_SENS2_def lt1 lt2 t_def p_def q_def
        split: if_splits)
qed

text \<open>
  A coefficient shifted left, plus a coefficient times \<open>dT\<close> shifted right.
\<close>

lemma first_order_term:
  fixes a b :: u16
  assumes "sint dT = d" "\<bar>d\<bar> \<le> 16777216" "n \<le> 17" "6 \<le> m"
  shows "sint (push_bit n (ucast a :: i64) + signed_drop_bit m (ucast b * scast (dT :: i32))) =
           uint a * 2 ^ n + uint b * d div 2 ^ m"
    and "- 17179607040 \<le> uint a * 2 ^ n + uint b * d div 2 ^ m"
    and "uint a * 2 ^ n + uint b * d div 2 ^ m \<le> 25769410560"
proof -
  define x where "x = uint a"
  define y where "y = uint b"
  have x: "0 \<le> x" "x \<le> 65535" by (simp_all add: x_def uint16_less)
  have y: "\<bar>y\<bar> \<le> 65535" by (simp add: y_def uint16_less)
  have sx: "sint (ucast a :: i64) = x" by (simp add: sint64_ucast16 x_def)
  have sy: "sint (ucast b :: i64) = y" by (simp add: sint64_ucast16 y_def)
  have sd: "sint (scast dT :: i64) = d" using assms(1) by (simp add: sint64_scast32)
  have "(2 :: int) ^ n \<le> 2 ^ 17" using assms(3) by (intro power_increasing) simp_all
  then have pw: "(0 :: int) < 2 ^ n" "(2 :: int) ^ n \<le> 131072" by simp_all
  have "x * 2 ^ n \<le> 65535 * 131072" using x pw by (intro mult_mono) simp_all
  moreover have "0 \<le> x * 2 ^ n" using x by simp
  ultimately have xs: "0 \<le> x * 2 ^ n" "x * 2 ^ n \<le> 8589803520" by simp_all
  have p: "sint (push_bit n (ucast a :: i64)) = x * 2 ^ n"
    using sx by (rule sint64_push_bit_val) (use xs in simp_all)
  from sint64_mult_val [OF sy sd y assms(2)]
  have m: "sint (ucast b * scast dT :: i64) = y * d" "\<bar>y * d\<bar> \<le> 1099494850560"
    by simp_all
  have s: "sint (signed_drop_bit m (ucast b * scast dT :: i64)) = y * d div 2 ^ m"
    using m(1) by (rule sint64_shift_val)
  have "(2 :: int) ^ 6 \<le> 2 ^ m" using assms(4) by (intro power_increasing) simp_all
  then have m2: "(64 :: int) \<le> 2 ^ m" by simp
  have "- 1099494850560 \<le> y * d" "y * d \<le> 1099494850560" using m(2) by simp_all
  then have "- 1099494850560 div 2 ^ m \<le> y * d div 2 ^ m"
    "y * d div 2 ^ m \<le> 1099494850560 div 2 ^ m"
    by (simp_all add: zdiv_mono1)
  moreover have "(1099494850560 :: int) div 2 ^ m \<le> 1099494850560 div 64"
    using m2 by (intro zdiv_mono2) simp_all
  moreover have "(- 1099494850560 :: int) div 64 \<le> - 1099494850560 div 2 ^ m"
    using m2 by (intro zdiv_mono2_neg) simp_all
  ultimately have ds: "- 17179607040 \<le> y * d div 2 ^ m" "y * d div 2 ^ m \<le> 17179607040"
    by simp_all
  show "sint (push_bit n (ucast a :: i64) + signed_drop_bit m (ucast b * scast dT)) =
           uint a * 2 ^ n + uint b * d div 2 ^ m"
    unfolding x_def [symmetric] y_def [symmetric]
    using p s by (rule sint64_add_val) (use xs ds in simp_all)
  show "- 17179607040 \<le> uint a * 2 ^ n + uint b * d div 2 ^ m"
    unfolding x_def [symmetric] y_def [symmetric] using xs ds by simp
  show "uint a * 2 ^ n + uint b * d div 2 ^ m \<le> 25769410560"
    unfolding x_def [symmetric] y_def [symmetric] using xs ds by simp
qed

lemma pressure_term:
  assumes "sint SENS = s" "\<bar>s\<bar> \<le> 211298933771" "sint OFF = f" "\<bar>f\<bar> \<le> 390530302771"
    and "uint adc_pressure < 2 ^ 24"
  shows "sint (signed_drop_bit 15
                (signed_drop_bit 21 (ucast (adc_pressure :: u32) * (SENS :: i64)) - OFF)) =
           (uint adc_pressure * s div 2 ^ 21 - f) div 2 ^ 15"
proof -
  define r where "r = uint adc_pressure"
  have r: "\<bar>r\<bar> \<le> 16777215" using assms(5) by (simp add: r_def)
  have sr: "sint (ucast adc_pressure :: i64) = r" by (simp add: sint64_ucast32 r_def)
  from sint64_mult_val [OF sr assms(1) r assms(2)]
  have m: "sint (ucast adc_pressure * SENS) = r * s" "\<bar>r * s\<bar> \<le> 3545007641146827765"
    by simp_all
  have sh: "sint (signed_drop_bit 21 (ucast adc_pressure * SENS)) = r * s div 2 ^ 21"
    using m(1) by (rule sint64_shift_val)
  from div_bounds [OF m(2), of "2 ^ 21"]
  have ds: "- 2000000000000 \<le> r * s div 2 ^ 21" "r * s div 2 ^ 21 \<le> 2000000000000"
    by simp_all
  have "sint (signed_drop_bit 21 (ucast adc_pressure * SENS) - OFF) = r * s div 2 ^ 21 - f"
    using sh assms(3) by (rule sint64_diff_val) (use ds assms(4) in simp_all)
  then show ?thesis
    unfolding r_def [symmetric] by (rule sint64_shift_val)
qed

lemma compensate_exact:
  assumes "uint adc_temperature < 2 ^ 24" "uint adc_pressure < 2 ^ 24"
  shows "compensate coeff adc_temperature adc_pressure =
           spec_compensate (\<lambda>i. uint (coeff ! i)) (uint adc_temperature) (uint adc_pressure)"
proof -
  define dT where "dT = compute_dT coeff adc_temperature"
  define TEMP where "TEMP = compute_TEMP coeff dT"
  define d where "d = uint adc_temperature - uint (coeff ! 5) * 2 ^ 8"
  define t where "t = 2000 + d * uint (coeff ! 6) div 2 ^ 23"
  have sd: "sint dT = d" and "\<bar>sint dT\<bar> \<le> 2 ^ 24"
    using compute_dT_sint [OF assms(1), of coeff] by (simp_all add: dT_def d_def)
  then have bd: "\<bar>sint dT\<bar> \<le> 2 ^ 24" "\<bar>d\<bar> \<le> 16777216" by simp_all
  have st: "sint TEMP = t" and "\<bar>sint TEMP - 2000\<bar> \<le> 131070"
    using compute_TEMP_sint [OF bd(1), of coeff] by (simp_all add: TEMP_def t_def sd)
  then have bt: "\<bar>sint TEMP - 2000\<bar> \<le> 131070" "\<bar>t - 2000\<bar> \<le> 131070" by simp_all
  obtain T2 OFF2 SENS2 where so: "second_order dT TEMP = (T2, OFF2, SENS2)"
    by (cases "second_order dT TEMP")
  define off2 where "off2 = spec_OFF2 t"
  define sens2 where "sens2 = spec_SENS2 t"
  from second_order_sint [OF bd(1) bt(1) so]
  have s2: "sint T2 = spec_T2 d t" "sint OFF2 = off2" "sint SENS2 = sens2"
    by (simp_all add: sd st off2_def sens2_def)
  from spec_second_order_bounds [OF bt(2)]
  have b2: "0 \<le> off2" "off2 \<le> 373350695731" "0 \<le> sens2" "sens2 \<le> 194119326731"
    by (simp_all add: off2_def sens2_def)
  \<comment> \<open>\<open>OFF\<close>\<close>
  define off1 where "off1 = uint (coeff ! 2) * 2 ^ 17 + uint (coeff ! 4) * d div 2 ^ 6"
  define OFF1 where "OFF1 = push_bit 17 (ucast (coeff ! 2) :: i64) +
                signed_drop_bit 6 (ucast (coeff ! 4) * scast dT)"
  have o1: "sint OFF1 = off1" "- 17179607040 \<le> off1" "off1 \<le> 25769410560"
    using first_order_term [OF sd bd(2), of 17 6 "coeff ! 2" "coeff ! 4"]
    by (simp_all add: OFF1_def off1_def)
  have o: "sint (OFF1 - OFF2) = off1 - off2"
    using o1(1) s2(2) by (rule sint64_diff_val) (use o1 b2 in simp_all)
  have ob: "\<bar>off1 - off2\<bar> \<le> 390530302771" using o1 b2 by simp
  \<comment> \<open>\<open>SENS\<close>\<close>
  define sens1 where "sens1 = uint (coeff ! 1) * 2 ^ 16 + uint (coeff ! 3) * d div 2 ^ 7"
  define SENS1 where "SENS1 = push_bit 16 (ucast (coeff ! 1) :: i64) +
                signed_drop_bit 7 (ucast (coeff ! 3) * scast dT)"
  have e1: "sint SENS1 = sens1" "- 17179607040 \<le> sens1" "sens1 \<le> 25769410560"
    using first_order_term [OF sd bd(2), of 16 7 "coeff ! 1" "coeff ! 3"]
    by (simp_all add: SENS1_def sens1_def)
  have e: "sint (SENS1 - SENS2) = sens1 - sens2"
    using e1(1) s2(3) by (rule sint64_diff_val) (use e1 b2 in simp_all)
  have eb: "\<bar>sens1 - sens2\<bar> \<le> 211298933771" using e1 b2 by simp
  \<comment> \<open>\<open>P\<close>\<close>
  from pressure_term [OF e eb o ob assms(2)]
  have p: "sint (signed_drop_bit 15
                  (signed_drop_bit 21 (ucast adc_pressure * (SENS1 - SENS2)) - (OFF1 - OFF2))) =
             (uint adc_pressure * (sens1 - sens2) div 2 ^ 21 - (off1 - off2)) div 2 ^ 15" .
  have "compensate coeff adc_temperature adc_pressure =
          \<lparr>temperature_x100 = t - spec_T2 d t,
           pressure_x100 =
             (uint adc_pressure * (sens1 - sens2) div 2 ^ 21 - (off1 - off2)) div 2 ^ 15\<rparr>"
    unfolding compensate_def Let_def dT_def [symmetric] TEMP_def [symmetric] so prod.case
      ms5805_constants OFF1_def [symmetric] SENS1_def [symmetric]
    by (simp add: p st s2)
  also have "\<dots> = spec_compensate (\<lambda>i. uint (coeff ! i)) (uint adc_temperature)
                      (uint adc_pressure)"
    unfolding spec_compensate_def Let_def
    by (simp add: push_bit_eq_mult drop_bit_eq_div d_def t_def off1_def sens1_def off2_def
        sens2_def)
  finally show ?thesis .
qed

lemma received_adc_24bit: "uint (received_adc w t) < 2 ^ 24"
proof -
  have "take_bit 24 (received_adc w t) = received_adc w t"
    unfolding received_adc_def Let_def
    by (auto simp add: bit_eq_iff bit_simps dest: bit_imp_le_length)
  then have "uint (received_adc w t) = take_bit 24 (uint (received_adc w t))"
    by (simp add: unsigned_take_bit_eq [symmetric])
  also have "\<dots> < 2 ^ 24" by (rule take_bit_int_less_exp)
  finally show ?thesis .
qed

lemma conversion_result_24bit:
  assumes "conversion_and_read_adc status cmd w = (Inr adc, w')"
  shows "uint adc < 2 ^ 24"
  using assms received_adc_24bit [of w "trace w @ conversion_ops cmd"]
  by (auto simp add: conversion_and_read_adc_eq split: if_splits)

text \<open>
  C1. When the coefficients are available and the two conversions have returned the raw
  values \<open>adc_temperature\<close> and \<open>adc_pressure\<close>, both not zero, the raw values are below
  \<open>2 ^ 24\<close> and \<open>read_temperature_and_pressure\<close> returns the reading that the formulas
  \<open>dT = rawTemp - (C[5] << 8)\<close>, \<open>TEMP = 2000 + ((dT * C[6]) >> 23)\<close>,
  \<open>OFF = (C[2] << 17) + ((C[4] * dT) >> 6) - OFF2\<close>,
  \<open>SENS = (C[1] << 16) + ((C[3] * dT) >> 7) - SENS2\<close>,
  \<open>P = (((rawPressure * SENS) >> 21) - OFF) >> 15\<close> give in unbounded integers: no 32-bit
  or 64-bit operation of the code wraps around. The reading holds \<open>TEMP - T2\<close> and \<open>P\<close>,
  which the code divides by 100 in \<open>float\<close>.
\<close>

theorem read_temperature_and_pressure_compensation:
  assumes "load_coefficients d w = (ms5805_status_ok, d1, w1)"
    and "conversion_and_read_adc status_t (temperature_cmd d1) w1 = (Inr adc_temperature, w2)"
    and "conversion_and_read_adc status_p (pressure_cmd d1) w2 = (Inr adc_pressure, w3)"
    and "adc_temperature \<noteq> 0" and "adc_pressure \<noteq> 0"
  shows "uint adc_temperature < 2 ^ 24 \<and> uint adc_pressure < 2 ^ 24 \<and>
         read_temperature_and_pressure status_t status_p d w =
           (Inr (spec_compensate (\<lambda>i. uint (eeprom_coeff d1 ! i))
                   (uint adc_temperature) (uint adc_pressure)), d1, w3)"
proof -
  have t: "uint adc_temperature < 2 ^ 24" using assms(2) by (rule conversion_result_24bit)
  have p: "uint adc_pressure < 2 ^ 24" using assms(3) by (rule conversion_result_24bit)
  have "read_temperature_and_pressure status_t status_p d w =
          (Inr (compensate (eeprom_coeff d1) adc_temperature adc_pressure), d1, w3)"
    using assms unfolding read_temperature_and_pressure_def by simp
  with t p show ?thesis by (simp add: compensate_exact)
qed

lemma spec_compensate_example:
  "spec_compensate (\<lambda>i. uint (example_prom ! i)) 8077636 6465444 =
     \<lparr>temperature_x100 = 2000, pressure_x100 = 110002\<rparr>"
  unfolding spec_compensate_def Let_def
  by (simp add: example_prom_def spec_T2_def spec_OFF2_def spec_SENS2_def push_bit_eq_mult
      drop_bit_eq_div)

theorem read_temperature_and_pressure_compensation_witness:
  "load_coefficients loaded_driver example_sensor =
     (ms5805_status_ok, loaded_driver, example_sensor) \<and>
   fst (conversion_and_read_adc ms5805_status_ok (temperature_cmd loaded_driver)
          example_sensor) = Inr 8077636 \<and>
   fst (read_temperature_and_pressure ms5805_status_ok ms5805_status_ok loaded_driver
          example_sensor) =
     Inr \<lparr>temperature_x100 = 2000, pressure_x100 = 110002\<rparr>"
proof -
  let ?w2 = "snd (conversion_and_read_adc ms5805_status_ok (temperature_cmd loaded_driver)
                    example_sensor)"
  let ?w3 = "snd (conversion_and_read_adc ms5805_status_ok (pressure_cmd loaded_driver) ?w2)"
  have l: "load_coefficients loaded_driver example_sensor =
             (ms5805_status_ok, loaded_driver, example_sensor)"
    by (simp add: load_coefficients_def loaded_driver_def)
  have ft: "fst (conversion_and_read_adc ms5805_status_ok (temperature_cmd loaded_driver)
                   example_sensor) = Inr 8077636"
    by (simp add: sensor_eval example_sensor_def)
  then have t: "conversion_and_read_adc ms5805_status_ok (temperature_cmd loaded_driver)
                  example_sensor = (Inr 8077636, ?w2)"
    by (metis prod.collapse)
  have "fst (conversion_and_read_adc ms5805_status_ok (pressure_cmd loaded_driver) ?w2) =
          Inr 6465444"
    by (simp add: sensor_eval example_sensor_def)
  then have p: "conversion_and_read_adc ms5805_status_ok (pressure_cmd loaded_driver) ?w2 =
                  (Inr 6465444, ?w3)"
    by (metis prod.collapse)
  have n: "(8077636 :: u32) \<noteq> 0" "(6465444 :: u32) \<noteq> 0" by simp_all
  have e: "eeprom_coeff loaded_driver = example_prom" by (simp add: loaded_driver_def)
  from read_temperature_and_pressure_compensation [OF l t p n] l ft
  show ?thesis by (simp add: e spec_compensate_example)
qed

text \<open>
  C2. For every table and every raw temperature below \<open>2 ^ 24\<close>, with \<open>dT\<close> and \<open>TEMP\<close> as
  the code computes them: if \<open>TEMP < 2000\<close> then \<open>T2 = (3 * dT * dT) >> 33\<close>,
  \<open>OFF2 = 61 * (TEMP - 2000)^2 / 16\<close> and \<open>SENS2 = 29 * (TEMP - 2000)^2 / 16\<close>, and if also
  \<open>TEMP < -1500\<close> then \<open>17 * (TEMP + 1500)^2\<close> is added to \<open>OFF2\<close> and
  \<open>9 * (TEMP + 1500)^2\<close> to \<open>SENS2\<close>; otherwise \<open>T2 = (5 * dT * dT) >> 38\<close> and
  \<open>OFF2 = SENS2 = 0\<close>. Both comparisons are strict: \<open>TEMP = 2000\<close> takes the else branch,
  and \<open>TEMP = -1500\<close> adds nothing (the example after the theorem evaluates both).
\<close>

theorem second_order_strict_thresholds:
  assumes "uint adc_temperature < 2 ^ 24"
  shows "let dT = compute_dT coeff adc_temperature; TEMP = compute_TEMP coeff dT
         in case second_order dT TEMP of
              (T2, OFF2, SENS2) \<Rightarrow>
                if sint TEMP < 2000
                then sint T2 = drop_bit 33 (3 * sint dT * sint dT) \<and>
                     sint OFF2 = 61 * (sint TEMP - 2000)\<^sup>2 div 16 +
                                 (if sint TEMP < - 1500 then 17 * (sint TEMP + 1500)\<^sup>2 else 0) \<and>
                     sint SENS2 = 29 * (sint TEMP - 2000)\<^sup>2 div 16 +
                                  (if sint TEMP < - 1500 then 9 * (sint TEMP + 1500)\<^sup>2 else 0)
                else sint T2 = drop_bit 38 (5 * sint dT * sint dT) \<and> OFF2 = 0 \<and> SENS2 = 0"
proof -
  define dT where "dT = compute_dT coeff adc_temperature"
  define TEMP where "TEMP = compute_TEMP coeff dT"
  have bd: "\<bar>sint dT\<bar> \<le> 2 ^ 24"
    using compute_dT_sint(2) [OF assms, of coeff] by (simp add: dT_def)
  have bt: "\<bar>sint TEMP - 2000\<bar> \<le> 131070"
    using compute_TEMP_sint(2) [OF bd, of coeff] by (simp add: TEMP_def)
  obtain T2 OFF2 SENS2 where so: "second_order dT TEMP = (T2, OFF2, SENS2)"
    by (cases "second_order dT TEMP")
  note s = second_order_sint [OF bd bt so]
  have z: "\<not> sint TEMP < 2000 \<Longrightarrow> OFF2 = 0 \<and> SENS2 = 0"
    using so by (simp add: second_order_def word_sless_alt)
  show ?thesis
    unfolding Let_def dT_def [symmetric] TEMP_def [symmetric] so prod.case
    using s z by (simp add: spec_T2_def spec_OFF2_def spec_SENS2_def)
qed

theorem second_order_strict_thresholds_witness:
  "uint (128000 :: u32) < 2 ^ 24 \<and>
   sint (compute_TEMP cold_prom (compute_dT cold_prom 128000)) = - 1500 \<and>
   second_order (compute_dT cold_prom 128000)
     (compute_TEMP cold_prom (compute_dT cold_prom 128000)) = (280, 46703125, 22203125) \<and>
   (61 * (- 1500 - 2000)\<^sup>2 div 16 :: int) = 46703125 \<and>
   sint (compute_TEMP example_prom (compute_dT example_prom 8077636)) = 2000 \<and>
   second_order (compute_dT example_prom 8077636)
     (compute_TEMP example_prom (compute_dT example_prom 8077636)) = (0, 0, 0)"
proof -
  have h: "uint (128000 :: u32) < 2 ^ 24" by simp
  have c: "sint (compute_TEMP cold_prom (compute_dT cold_prom 128000)) = - 1500"
    "second_order (compute_dT cold_prom 128000)
       (compute_TEMP cold_prom (compute_dT cold_prom 128000)) = (280, 46703125, 22203125)"
    unfolding cold_prom_def by code_simp+
  have e: "sint (compute_TEMP example_prom (compute_dT example_prom 8077636)) = 2000"
    "second_order (compute_dT example_prom 8077636)
       (compute_TEMP example_prom (compute_dT example_prom 8077636)) = (0, 0, 0)"
    unfolding example_prom_def by code_simp+
  have a: "(61 * (- 1500 - 2000)\<^sup>2 div 16 :: int) = 46703125" by simp
  from second_order_strict_thresholds [OF h, of cold_prom] h c e a
  show ?thesis by simp
qed

end
